theory Spec2Isabelle
  imports Main "HOL-Library.Sublist" "HOL-Library.AList"
begin

section \<open>Python strings\<close>

text \<open>
  A Python \<open>str\<close> is represented by its UTF-8 encoding, a \<open>char list\<close>. Searching,
  splitting, prefix tests and concatenation agree on code points and on their UTF-8
  bytes. \<open>len\<close> counts code points, that is, the bytes that are not continuation bytes.
  What depends on the Unicode tables (\<open>str.lower\<close>, \<open>str.strip\<close>, \<open>repr\<close>, the \<open>re\<close>
  module) is not defined here: it is a parameter of the program, see the library below.
\<close>

text \<open>\<open>sub in s\<close>\<close>

fun py_in :: "string \<Rightarrow> string \<Rightarrow> bool" where
  "py_in sub [] = (sub = [])"
| "py_in sub (c # cs) = (prefix sub (c # cs) \<or> py_in sub cs)"

definition py_startswith :: "string \<Rightarrow> string \<Rightarrow> bool" where
  "py_startswith s pre = prefix pre s"


definition utf8_continuation :: "char \<Rightarrow> bool" where
  "utf8_continuation c = (0x80 \<le> (of_char c :: nat) \<and> (of_char c :: nat) < 0xC0)"

definition py_len :: "string \<Rightarrow> int" where
  "py_len s = int (length (filter (\<lambda>c. \<not> utf8_continuation c) s))"

text \<open>
  \<open>s.split(sep)\<close> for a non-empty separator: \<open>skip\<close> counts the characters of a separator
  just recognised that are still to be passed over, \<open>cur\<close> is the current part, reversed.
\<close>

fun split_from :: "string \<Rightarrow> nat \<Rightarrow> string \<Rightarrow> string \<Rightarrow> string list" where
  "split_from sep skip cur [] = [rev cur]"
| "split_from sep (Suc k) cur (c # cs) = split_from sep k cur cs"
| "split_from sep 0 cur (c # cs) =
     (if prefix sep (c # cs) then rev cur # split_from sep (length sep - 1) [] cs
      else split_from sep 0 (c # cur) cs)"

definition py_split :: "string \<Rightarrow> string \<Rightarrow> string list" where
  "py_split s sep = split_from sep 0 [] s"

text \<open>\<open>sep.join(parts)\<close>\<close>

fun py_join :: "string \<Rightarrow> string list \<Rightarrow> string" where
  "py_join sep [] = []"
| "py_join sep [p] = p"
| "py_join sep (p # q # ps) = p @ sep @ py_join sep (q # ps)"

section \<open>Values, exceptions and the libraries the program calls\<close>

text \<open>
  A value decoded from JSON. A number is carried by its literal. An object is an
  association list in which a repeated key keeps its first position and takes the last
  value, as a Python \<open>dict\<close> does.
\<close>

datatype json =
    JNull
  | JBool bool
  | JNum string
  | JStr string
  | JArr "json list"
  | JObj "(string \<times> json) list"

type_synonym dict = "(string \<times> json) list"

text \<open>An exception: the name of its type and its text (\<open>str(e)\<close>).\<close>

datatype exn = Exn string string

fun exn_type :: "exn \<Rightarrow> string" where
  "exn_type (Exn t m) = t"

fun exn_message :: "exn \<Rightarrow> string" where
  "exn_message (Exn t m) = m"

text \<open>
  \<open>json.loads(s)\<close> returns a value, raises \<open>json.JSONDecodeError\<close>, or raises something
  else (\<open>ValueError\<close> for an integer of more than 4300 digits, \<open>RecursionError\<close>).
\<close>

datatype json_outcome = Decoded json | JSONDecodeError | JsonRaise exn

text \<open>
  The interpreter and the libraries \<open>re\<close>, \<open>json\<close> and \<open>rich\<close>, as far as the program
  calls them. They are not part of the repository, and the program is modelled for
  every behaviour they may have:
  \<^item> \<open>str_lower\<close>, \<open>str_strip\<close>, \<open>str_repr\<close>: \<open>s.lower()\<close>, \<open>s.strip()\<close>, \<open>repr(s)\<close>;
  \<^item> \<open>str_of\<close>: the text of a decoded value that is not a string inside an f-string;
  \<^item> \<open>num_is_zero\<close>: whether a decoded number is zero (false in a condition);
  \<^item> \<open>re_search_ignorecase p s\<close>: \<open>re.search(p, s, re.IGNORECASE)\<close> finds a match;
  \<^item> \<open>re_findall_dotall p s\<close>: \<open>re.findall(p, s, re.DOTALL)\<close> for a pattern with one group;
  \<^item> \<open>json_loads\<close>;
  \<^item> \<open>console_print\<close>: \<open>Console.print\<close> of a text with markup, which prints or raises
    (\<open>rich.errors.MarkupError\<close> at a closing tag that closes nothing);
    \<open>console_print_panel content title\<close>: the same for a \<open>Panel\<close>;
    \<open>print_traceback e\<close>: \<open>console.print(traceback.format_exc(), style="dim")\<close> while \<open>e\<close>
    is handled.
  Printing one of the program's fixed texts (a text with no part taken from a command,
  a reply, an output or an exception; a number or the name of a class may be part of it)
  does not raise and is left out of the model.
\<close>

record library =
  str_lower :: "string \<Rightarrow> string"
  str_strip :: "string \<Rightarrow> string"
  str_repr :: "string \<Rightarrow> string"
  str_of :: "json \<Rightarrow> string"
  num_is_zero :: "string \<Rightarrow> bool"
  re_search_ignorecase :: "string \<Rightarrow> string \<Rightarrow> bool"
  re_findall_dotall :: "string \<Rightarrow> string \<Rightarrow> string list"
  json_loads :: "string \<Rightarrow> json_outcome"
  console_print :: "string \<Rightarrow> exn option"
  console_print_panel :: "string \<Rightarrow> string \<Rightarrow> exn option"
  print_traceback :: "exn \<Rightarrow> exn option"

text \<open>Truth value of a decoded value (\<open>if x:\<close>, \<open>not x\<close>).\<close>

fun py_truthy :: "library \<Rightarrow> json \<Rightarrow> bool" where
  "py_truthy lib JNull = False"
| "py_truthy lib (JBool b) = b"
| "py_truthy lib (JNum a) = (\<not> num_is_zero lib a)"
| "py_truthy lib (JStr s) = (s \<noteq> [])"
| "py_truthy lib (JArr xs) = (xs \<noteq> [])"
| "py_truthy lib (JObj kvs) = (kvs \<noteq> [])"

text \<open>A decoded value inside an f-string.\<close>

definition py_str :: "library \<Rightarrow> json \<Rightarrow> string" where
  "py_str lib v = (case v of JStr s \<Rightarrow> s | _ \<Rightarrow> str_of lib v)"

text \<open>\<open>d.get(k, default)\<close>\<close>

definition dict_get :: "dict \<Rightarrow> string \<Rightarrow> json \<Rightarrow> json" where
  "dict_get d k dflt = (case map_of d k of None \<Rightarrow> dflt | Some v \<Rightarrow> v)"

text \<open>\<open>k in d\<close>\<close>

definition dict_has :: "dict \<Rightarrow> string \<Rightarrow> bool" where
  "dict_has d k = (map_of d k \<noteq> None)"

section \<open>ui.py: printing\<close>

text \<open>
  The methods of \<open>UI\<close> that print a text taken from the run. Each puts its argument
  into a text with markup and hands it to the console; the result is the exception
  raised, if any.
\<close>

definition print_error :: "library \<Rightarrow> string \<Rightarrow> exn option" where
  "print_error lib message = console_print lib (''[error]Error:[/error] '' @ message)"

definition print_warning :: "library \<Rightarrow> string \<Rightarrow> exn option" where
  "print_warning lib message = console_print lib (''[warning]Warning:[/warning] '' @ message)"

definition print_info :: "library \<Rightarrow> string \<Rightarrow> exn option" where
  "print_info lib message = console_print lib (''[info]Info:[/info] '' @ message)"

definition print_assistant :: "library \<Rightarrow> string \<Rightarrow> exn option" where
  "print_assistant lib message =
    console_print lib (''[assistant]Assistant:[/assistant] '' @ message)"

text \<open>
  \<open>print_command(command, status)\<close>; the three signs are a small triangle (U+25B8), a
  check mark (U+2713) and a ballot x (U+2717).
\<close>

definition print_command :: "library \<Rightarrow> string \<Rightarrow> string \<Rightarrow> exn option" where
  "print_command lib command status =
    (let pending = ''[dim]'' @ [CHR 0xE2, CHR 0x96, CHR 0xB8] @ ''[/dim] [bold white]'' @
                   command @ ''[/bold white]''
     in if status = ''pending'' then console_print lib pending
        else if status = ''executing'' then None
        else if status = ''success''
        then console_print lib (''[green]'' @ [CHR 0xE2, CHR 0x9C, CHR 0x93] @
                                ''[/green] [dim]'' @ command @ ''[/dim]'')
        else if status = ''error''
        then console_print lib (''[red]'' @ [CHR 0xE2, CHR 0x9C, CHR 0x97] @
                                ''[/red] [dim]'' @ command @ ''[/dim]'')
        else console_print lib pending)"

definition print_output :: "library \<Rightarrow> string \<Rightarrow> bool \<Rightarrow> exn option" where
  "print_output lib output is_error =
    (if output = [] \<or> str_strip lib output = [] then None
     else if py_len (str_strip lib output) < 100
     then (if is_error then console_print lib (''[red]'' @ str_strip lib output @ ''[/red]'')
           else console_print lib (''[dim]'' @ str_strip lib output @ ''[/dim]''))
     else (if is_error then console_print_panel lib (str_strip lib output) ''Error''
           else console_print_panel lib (str_strip lib output) ''Output''))"

text \<open>\<open>print_thinking(thought=thought)\<close> for a thought that is true; the title is fixed.\<close>

definition print_thought :: "library \<Rightarrow> string \<Rightarrow> exn option" where
  "print_thought lib thought =
    console_print_panel lib (''[thinking]'' @ thought @ ''[/thinking]'')
      (''[dim]'' @ [CHR 0xE6, CHR 0x80, CHR 0x9D, CHR 0xE8, CHR 0x80, CHR 0x83, CHR 0xE8,
                   CHR 0xBF, CHR 0x87, CHR 0xE7, CHR 0xA8, CHR 0x8B] @ ''[/dim]'')"

section \<open>config.py\<close>

record config =
  SAFE_MODE :: bool
  MAX_STEPS :: int
  MAX_IDLE_STEPS :: int
  VERBOSE :: bool

definition DANGEROUS_COMMANDS :: "string list" where
  "DANGEROUS_COMMANDS =
    [''rm -rf /'', ''rm -rf /bin'', ''rm -rf /usr'', ''rm -rf /etc'', ''rm -rf /var'',
     ''rm -rf /sys'', ''rm -rf /proc'', ''rm -rf /boot'', ''rm -rf /root'',
     ''mkfs'', ''fdisk'', ''parted'', ''dd if='', ''dd of='',
     '':(){:|:&};:'',
     ''chmod -R 777 /'', ''chmod -R 000 /'', ''chown -R'',
     ''sudo rm'', ''sudo mkfs'', ''sudo fdisk'', ''sudo dd'', ''sudo chmod'', ''sudo chown'',
     ''systemctl stop'', ''systemctl disable'', ''service stop'',
     ''iptables -F'', ''iptables -X'',
     ''export PATH='', ''unset PATH'']"

text \<open>
  The patterns, as the source writes them (a backslash is \<open>CHR 0x5C\<close>):
  \<^verbatim>\<open>rm\s+-rf\s+/[^/]\<close>,
  \<^verbatim>\<open>rm\s+-rf\s+/(bin|usr|etc|var|sys|proc|boot|root)\<close>,
  \<^verbatim>\<open>mkfs\.?\w*\s+/\<close>, \<^verbatim>\<open>dd\s+if=.*\s+of=/dev/\<close>,
  \<^verbatim>\<open>chmod\s+[0-7]{3}\s+/\<close>,
  \<^verbatim>\<open>sudo\s+(rm|mkfs|fdisk|dd|chmod|chown)\<close>,
  \<^verbatim>\<open>:\(\)\{.*:\|.*&.*\};:\<close>.
\<close>

definition DANGEROUS_PATTERNS :: "string list" where
  "DANGEROUS_PATTERNS =
    [''rm'' @ [CHR 0x5C] @ ''s+-rf'' @ [CHR 0x5C] @ ''s+/[^/]'',
     ''rm'' @ [CHR 0x5C] @ ''s+-rf'' @ [CHR 0x5C] @ ''s+/(bin|usr|etc|var|sys|proc|boot|root)'',
     ''mkfs'' @ [CHR 0x5C] @ ''.?'' @ [CHR 0x5C] @ ''w*'' @ [CHR 0x5C] @ ''s+/'',
     ''dd'' @ [CHR 0x5C] @ ''s+if=.*'' @ [CHR 0x5C] @ ''s+of=/dev/'',
     ''chmod'' @ [CHR 0x5C] @ ''s+[0-7]{3}'' @ [CHR 0x5C] @ ''s+/'',
     ''sudo'' @ [CHR 0x5C] @ ''s+(rm|mkfs|fdisk|dd|chmod|chown)'',
     '':'' @ [CHR 0x5C] @ ''('' @ [CHR 0x5C] @ '')'' @ [CHR 0x5C] @ ''{.*:'' @ [CHR 0x5C] @ ''|.*&.*'' @ [CHR 0x5C] @ ''};:'']"

definition dangerous_sudo_ops :: "string list" where
  "dangerous_sudo_ops =
    [''rm'', ''mkfs'', ''fdisk'', ''dd'', ''chmod'', ''chown'', ''format'', ''wipe'']"

definition system_paths :: "string list" where
  "system_paths =
    [''/bin'', ''/usr'', ''/etc'', ''/var'', ''/sys'', ''/proc'', ''/boot'', ''/root'',
     ''/sbin'', ''/lib'']"

text \<open>\<open>Config.is_dangerous_command\<close>: four layers, the first hit returns.\<close>

definition is_dangerous_command :: "library \<Rightarrow> config \<Rightarrow> string \<Rightarrow> bool" where
  "is_dangerous_command lib cfg command =
    (if \<not> SAFE_MODE cfg then False
     else
       let command_lower = str_strip lib (str_lower lib command);
           command_original = str_strip lib command
       in
         if list_ex (\<lambda>dangerous. py_in (str_lower lib dangerous) command_lower)
              DANGEROUS_COMMANDS
         then True
         else if list_ex (\<lambda>pattern. re_search_ignorecase lib pattern command_lower)
                   DANGEROUS_PATTERNS
         then True
         else if py_in ''sudo'' command_lower \<and>
                 list_ex (\<lambda>op. py_in op command_lower) dangerous_sudo_ops
         then True
         else if py_in ''rm'' command_lower \<and>
                 (py_in ''-rf'' command_lower \<or> py_in ''-r'' command_lower) \<and>
                 list_ex (\<lambda>path. py_in path command_original) system_paths
         then True
         else False)"

section \<open>tools.py: TerminalTool\<close>

text \<open>
  \<open>PersistentShell.__init__\<close> on Unix: the shell and the two sidecar paths, from the
  environment variable \<open>SHELL\<close> and the process id (already formatted). Writing the
  first state files is an effect on the file system and not part of the record.
\<close>

record persistent_shell =
  shell :: string
  state_file :: string
  cwd_file :: string

definition PersistentShell_init :: "string option \<Rightarrow> string \<Rightarrow> persistent_shell" where
  "PersistentShell_init env_shell pid =
    \<lparr> shell = (case env_shell of None \<Rightarrow> ''/bin/zsh'' | Some s \<Rightarrow> s),
      state_file = ''/tmp/minishellagent_shell_state_'' @ pid @ ''.sh'',
      cwd_file = ''/tmp/minishellagent_shell_cwd_'' @ pid @ ''.txt'' \<rparr>"

record terminal_tool =
  safe_mode :: bool
  use_persistent_shell :: bool
  the_persistent_shell :: "persistent_shell option"

text \<open>\<open>TerminalTool.__init__(safe_mode, use_persistent_shell)\<close>\<close>

definition TerminalTool_init ::
  "config \<Rightarrow> string option \<Rightarrow> string \<Rightarrow> bool \<Rightarrow> bool \<Rightarrow> terminal_tool" where
  "TerminalTool_init cfg env_shell pid safe_mode_arg use_persistent_shell_arg =
    \<lparr> safe_mode = (safe_mode_arg \<or> SAFE_MODE cfg),
      use_persistent_shell = use_persistent_shell_arg,
      the_persistent_shell =
        (if use_persistent_shell_arg then Some (PersistentShell_init env_shell pid)
         else None) \<rparr>"

definition msg_empty :: string where
  "msg_empty = [CHR 0xE5, CHR 0x91, CHR 0xBD, CHR 0xE4, CHR 0xBB, CHR 0xA4, CHR 0xE4,
    CHR 0xB8, CHR 0x8D, CHR 0xE8, CHR 0x83, CHR 0xBD, CHR 0xE4, CHR 0xB8, CHR 0xBA, CHR 0xE7,
    CHR 0xA9, CHR 0xBA]"

definition msg_dangerous :: string where
  "msg_dangerous = [CHR 0xE5, CHR 0x8D, CHR 0xB1, CHR 0xE9, CHR 0x99, CHR 0xA9, CHR 0xE5,
    CHR 0x91, CHR 0xBD, CHR 0xE4, CHR 0xBB, CHR 0xA4, CHR 0xE5, CHR 0xB7, CHR 0xB2, CHR 0xE8,
    CHR 0xA2, CHR 0xAB, CHR 0xE9, CHR 0x98, CHR 0xBB, CHR 0xE6, CHR 0xAD, CHR 0xA2] @ '': ''"

definition msg_too_long :: string where
  "msg_too_long = [CHR 0xE5, CHR 0x91, CHR 0xBD, CHR 0xE4, CHR 0xBB, CHR 0xA4, CHR 0xE8,
    CHR 0xBF, CHR 0x87, CHR 0xE9, CHR 0x95, CHR 0xBF, CHR 0xEF, CHR 0xBC, CHR 0x8C, CHR 0xE5,
    CHR 0x8F, CHR 0xAF, CHR 0xE8, CHR 0x83, CHR 0xBD, CHR 0xE5, CHR 0xAD, CHR 0x98, CHR 0xE5,
    CHR 0x9C, CHR 0xA8, CHR 0xE5, CHR 0xAE, CHR 0x89, CHR 0xE5, CHR 0x85, CHR 0xA8, CHR 0xE9,
    CHR 0xA3, CHR 0x8E, CHR 0xE9, CHR 0x99, CHR 0xA9]"

definition msg_injection :: string where
  "msg_injection = [CHR 0xE6, CHR 0xA3, CHR 0x80, CHR 0xE6, CHR 0xB5, CHR 0x8B, CHR 0xE5,
    CHR 0x88, CHR 0xB0, CHR 0xE5, CHR 0x8F, CHR 0xAF, CHR 0xE8, CHR 0x83, CHR 0xBD, CHR 0xE7,
    CHR 0x9A, CHR 0x84, CHR 0xE5, CHR 0x91, CHR 0xBD, CHR 0xE4, CHR 0xBB, CHR 0xA4, CHR 0xE6,
    CHR 0xB3, CHR 0xA8, CHR 0xE5, CHR 0x85, CHR 0xA5] @ '': ''"

definition dangerous_chars_combinations :: "(string \<times> string) list" where
  "dangerous_chars_combinations =
    [('';'', ''rm''), (''&&'', ''rm''), (''||'', ''rm''), ([CHR 0x60], ''rm''),
     (''$('', ''rm'')]"

text \<open>
  \<open>TerminalTool.validate_command\<close>. The messages are the UTF-8 bytes of the program's
  texts: "command must not be empty", "dangerous command blocked: <command>",
  "command too long, possible security risk", "possible command injection: <command>".
  Every return inside the loop over the combinations returns the same pair, so the loop
  is an existence test.
\<close>

definition validate_command ::
  "library \<Rightarrow> config \<Rightarrow> terminal_tool \<Rightarrow> string \<Rightarrow> bool \<times> string" where
  "validate_command lib cfg tool command =
    (if command = [] \<or> str_strip lib command = [] then (False, msg_empty)
     else if safe_mode tool \<and> is_dangerous_command lib cfg command
     then (False, msg_dangerous @ command)
     else if py_len command > 10000 then (False, msg_too_long)
     else if list_ex (\<lambda>combo.
                py_in (fst combo) command \<and> py_in (snd combo) (str_lower lib command) \<and>
                list_ex (\<lambda>part. py_startswith (str_lower lib (str_strip lib part)) (snd combo) \<and>
                                 safe_mode tool)
                        (tl (py_split command (fst combo))))
              dangerous_chars_combinations
     then (False, msg_injection @ command)
     else (True, ''OK''))"

section \<open>agents.py: the response parser\<close>

text \<open>The pattern \<^verbatim>\<open>```json\s*(\{.*?\})\s*```\<close> of the fenced block.\<close>

definition fence_pattern :: string where
  "fence_pattern =
    [CHR 0x60, CHR 0x60, CHR 0x60] @ ''json'' @ [CHR 0x5C] @ ''s*('' @ [CHR 0x5C] @ ''{.*?'' @ [CHR 0x5C] @ ''})'' @ [CHR 0x5C] @ ''s*'' @ [CHR 0x60, CHR 0x60, CHR 0x60]"

text \<open>
  The loop over \<open>range(start_idx, len(response))\<close>: the text from \<open>start_idx\<close> up to and
  including the brace that brings \<open>brace_count\<close> back to zero, if there is one. The loop
  ends (\<open>break\<close>) at that brace whatever the parse of the text gives.
\<close>

fun scan_object :: "int \<Rightarrow> bool \<Rightarrow> bool \<Rightarrow> string \<Rightarrow> string \<Rightarrow> string option" where
  "scan_object brace_count in_string escape_next acc [] = None"
| "scan_object brace_count in_string escape_next acc (c # cs) =
     (if escape_next then scan_object brace_count in_string False (c # acc) cs
      else if c = CHR 0x5C then scan_object brace_count in_string True (c # acc) cs
      else if c = CHR 0x22 then scan_object brace_count (\<not> in_string) False (c # acc) cs
      else if \<not> in_string then
        (if c = CHR ''{'' then scan_object (brace_count + 1) in_string False (c # acc) cs
         else if c = CHR ''}'' then
           (if brace_count - 1 = 0 then Some (rev (c # acc))
            else scan_object (brace_count - 1) in_string False (c # acc) cs)
         else scan_object brace_count in_string False (c # acc) cs)
      else scan_object brace_count in_string False (c # acc) cs)"

definition interaction_dict :: "dict \<Rightarrow> string \<Rightarrow> dict" where
  "interaction_dict data response =
    [(''interaction'', JBool True),
     (''message'', dict_get data ''message'' (JStr response)),
     (''options'', dict_get data ''options'' JNull),
     (''allow_custom_input'', dict_get data ''allow_custom_input'' (JBool False))]"

text \<open>The text from the first \<open>{\<close> of the response on (\<open>response.find('{')\<close>).\<close>

definition from_first_brace :: "string \<Rightarrow> string" where
  "from_first_brace response = dropWhile (\<lambda>c. c \<noteq> CHR ''{'') response"

text \<open>
  The scan of the text for a bare object (the second \<open>try\<close> of \<open>_parse_response\<close>): one
  attempt to decode, on the text up to the brace that balances the first. Whatever is
  raised inside is caught (\<open>JSONDecodeError\<close> by the inner handler, anything else,
  also a decoded value that is no object, by \<open>except Exception\<close>).
\<close>

definition scan_text :: "library \<Rightarrow> string \<Rightarrow> dict option" where
  "scan_text lib response =
    (case scan_object 0 False False [] (from_first_brace response) of
       None \<Rightarrow> None
     | Some json_str \<Rightarrow>
         (case json_loads lib json_str of
            Decoded (JObj data) \<Rightarrow>
              (if dict_get data ''status'' JNull = JStr ''interaction''
               then Some (interaction_dict data response)
               else if dict_has data ''command'' \<or> dict_has data ''status''
               then Some data
               else None)
          | _ \<Rightarrow> None))"

text \<open>The name Python gives the type of a decoded value, in an \<open>AttributeError\<close>.\<close>

fun py_type_name :: "json \<Rightarrow> string" where
  "py_type_name JNull = ''NoneType''"
| "py_type_name (JBool b) = ''bool''"
| "py_type_name (JNum a) =
     (if list_ex (\<lambda>c. c \<in> set ''.eEIN'') a then ''float'' else ''int'')"
| "py_type_name (JStr s) = ''str''"
| "py_type_name (JArr xs) = ''list''"
| "py_type_name (JObj kvs) = ''dict''"

definition AttributeError :: "json \<Rightarrow> string \<Rightarrow> exn" where
  "AttributeError v attr =
    Exn ''AttributeError''
      ([CHR 0x27] @ py_type_name v @ [CHR 0x27] @ '' object has no attribute '' @
       [CHR 0x27] @ attr @ [CHR 0x27])"

text \<open>
  \<open>CommandAgent._parse_response\<close>: the dictionary, \<open>None\<close>, or the exception that leaves
  the method. In the fenced path only \<open>JSONDecodeError\<close> is caught.
\<close>

definition parse_response :: "library \<Rightarrow> string \<Rightarrow> exn + dict option" where
  "parse_response lib response =
    (case re_findall_dotall lib fence_pattern response of
       [] \<Rightarrow> Inr (scan_text lib response)
     | m # ms \<Rightarrow>
         (case json_loads lib m of
            Decoded (JObj data) \<Rightarrow>
              (if dict_get data ''status'' JNull = JStr ''interaction''
               then Inr (Some (interaction_dict data response))
               else Inr (Some data))
          | Decoded other \<Rightarrow> Inl (AttributeError other ''get'')
          | JSONDecodeError \<Rightarrow> Inr (scan_text lib response)
          | JsonRaise e \<Rightarrow> Inl e))"

definition summary_keywords :: "string list" where
  "summary_keywords =
    [[CHR 0xE5, CHR 0xAE, CHR 0x8C, CHR 0xE6, CHR 0x88, CHR 0x90],
     [CHR 0xE5, CHR 0xAE, CHR 0x8C, CHR 0xE7, CHR 0xBB, CHR 0x93],
     ''finished'', ''done'',
     [CHR 0xE6, CHR 0x80, CHR 0xBB, CHR 0xE7, CHR 0xBB, CHR 0x93],
     ''summary'']"

text \<open>\<open>CommandAgent._is_final_summary\<close>\<close>

definition is_final_summary :: "library \<Rightarrow> string \<Rightarrow> bool" where
  "is_final_summary lib response =
    list_ex (\<lambda>kw. py_in kw (str_lower lib response)) summary_keywords"

section \<open>The world outside the program\<close>

text \<open>
  What the program cannot decide is a parameter: the language model, the user at the
  terminal, and the operating system with its shell. \<open>'os\<close> is the state of the
  operating system outside the process (the file system). A child started by
  \<open>subprocess.run\<close> sees the parent's environment and working directory and hands back
  an exit code and two texts (or the call raises); it can change the operating system,
  never the parent's environment or directory. \<open>PersistentShell.execute\<close> forks a child
  on a pseudo-terminal, polls it in real time and reads the sidecar files back into
  \<open>os.environ\<close> and the working directory; it catches every exception and stands here
  as its interface. The timeout is the argument the program passes.

  \<open>llm_generate\<close> stands for the inner \<open>try\<close> of \<open>run\<close>: the call of \<open>llm.generate\<close>
  and the printing of the token statistics; whatever is raised there is handled as a
  failed call. \<open>ui_interact\<close> stands for the dialogue of an interaction request
  (agents.py 278-316: showing the message and the options, reading the choice): it
  gives the user's text, empty when there is none, or raises.
\<close>

datatype proc_result = Completed int string string | TimeoutExpired | ProcError exn

datatype llm_result = LLMRaise exn | LLMNone | LLMText string

datatype user_answer = AnswerYes | AnswerNo | AnswerDefault

datatype confirm_kind = SudoConfirm | HighRiskConfirm | NormalConfirm

datatype ui_outcome = UiRaise exn | UiResponse string

record message =
  role :: string
  content :: string

type_synonym env = "(string \<times> string) list"

record 'os system =
  subprocess_run :: "'os \<Rightarrow> env \<Rightarrow> string \<Rightarrow> string \<Rightarrow> int option \<Rightarrow> proc_result \<times> 'os"
  persistent_execute ::
    "persistent_shell \<Rightarrow> 'os \<Rightarrow> env \<Rightarrow> string \<Rightarrow> string \<Rightarrow> int option \<Rightarrow>
     (bool \<times> string \<times> string) \<times> 'os \<times> env \<times> string"
  isdir :: "'os \<Rightarrow> string \<Rightarrow> bool"
  chdir_succeeds :: "'os \<Rightarrow> string \<Rightarrow> bool"
  llm_generate :: "nat \<Rightarrow> message list \<Rightarrow> llm_result"
  confirm_answer :: "nat \<Rightarrow> user_answer"
  ui_interact :: "nat \<Rightarrow> json \<Rightarrow> json \<Rightarrow> json \<Rightarrow> ui_outcome"

text \<open>
  The state of the process and its surroundings. \<open>shell_log\<close> and \<open>confirm_log\<close> record
  what was handed to a shell and which confirmations were asked (with their default);
  \<open>llm_calls\<close> and \<open>interactions\<close> count the calls made so far.
\<close>

record 'os world =
  os :: 'os
  environ :: env
  cwd :: string
  shell_log :: "string list"
  confirm_log :: "(confirm_kind \<times> bool) list"
  llm_calls :: nat
  interactions :: nat

text \<open>
  \<open>ui.confirm(message, default)\<close>: the user picks yes or no, or takes the option that
  is preselected, which is the default.
\<close>

definition ui_confirm ::
  "'os system \<Rightarrow> confirm_kind \<Rightarrow> bool \<Rightarrow> 'os world \<Rightarrow> bool \<times> 'os world" where
  "ui_confirm sys kind dflt w =
    ((case confirm_answer sys (length (confirm_log w)) of
        AnswerYes \<Rightarrow> True
      | AnswerNo \<Rightarrow> False
      | AnswerDefault \<Rightarrow> dflt),
     w\<lparr>confirm_log := confirm_log w @ [(kind, dflt)]\<rparr>)"

section \<open>tools.py: TerminalTool.execute\<close>

text \<open>The result of \<open>execute\<close>: the triple it returns, or the exception that leaves it.\<close>

type_synonym exec_result = "exn + (bool \<times> string \<times> string)"

definition high_risk_keywords :: "string list" where
  "high_risk_keywords =
    [''rm -rf'', ''mkfs'', ''fdisk'', ''dd if='', ''dd of='', ''format'', ''wipe'']"

definition is_directory_change_cmd :: "string \<Rightarrow> bool" where
  "is_directory_change_cmd command_lower =
    (py_startswith command_lower ''cd '' \<or> py_startswith command_lower ''pushd '' \<or>
     command_lower = ''popd'' \<or> py_startswith command_lower ''popd '')"

text \<open>\<open>os.chdir\<close> inside \<open>try ... except Exception: pass\<close>\<close>

definition try_chdir :: "'os system \<Rightarrow> string \<Rightarrow> 'os world \<Rightarrow> 'os world" where
  "try_chdir sys new_dir w = (if chdir_succeeds sys (os w) new_dir then w\<lparr>cwd := new_dir\<rparr> else w)"

definition call_subprocess ::
  "'os system \<Rightarrow> string \<Rightarrow> int option \<Rightarrow> 'os world \<Rightarrow> proc_result \<times> 'os world" where
  "call_subprocess sys shell_cmd timeout w =
    (let (res, os') = subprocess_run sys (os w) (environ w) (cwd w) shell_cmd timeout
     in (res, w\<lparr>os := os', shell_log := shell_log w @ [shell_cmd]\<rparr>))"

definition exec_failed_text :: string where
  "exec_failed_text =
    [CHR 0xE5, CHR 0x91, CHR 0xBD, CHR 0xE4, CHR 0xBB, CHR 0xA4, CHR 0xE6, CHR 0x89,
    CHR 0xA7, CHR 0xE8, CHR 0xA1, CHR 0x8C, CHR 0xE5, CHR 0xA4, CHR 0xB1, CHR 0xE8,
    CHR 0xB4, CHR 0xA5] @ '': ''"

text \<open>
  \<open>except Exception as e\<close> at the end of \<open>execute\<close> (and in its persistent path): the
  text "command failed: <e>" is printed, then \<open>(False, "", str(e))\<close> is returned.
\<close>

definition execute_failed :: "library \<Rightarrow> exn \<Rightarrow> exec_result" where
  "execute_failed lib e =
    (case print_error lib (exec_failed_text @ exn_message e) of
       Some e2 \<Rightarrow> Inl e2
     | None \<Rightarrow> Inr (False, [], exn_message e))"

text \<open>
  The prints at the end of the fallback path, inside its \<open>try\<close>: the output of a
  command that succeeded, or the command and the error output of one that failed.
\<close>

definition print_result ::
  "library \<Rightarrow> string \<Rightarrow> bool \<Rightarrow> string \<Rightarrow> string \<Rightarrow> exn option" where
  "print_result lib command success stdout stderr =
    (if success then (if stdout \<noteq> [] then print_output lib stdout False else None)
     else (case print_command lib command ''error'' of
             Some e \<Rightarrow> Some e
           | None \<Rightarrow> if stderr \<noteq> [] then print_output lib stderr True else None))"

definition finish_fallback ::
  "library \<Rightarrow> string \<Rightarrow> bool \<times> string \<times> string \<Rightarrow> exec_result" where
  "finish_fallback lib command res =
    (case res of (success, stdout, stderr) \<Rightarrow>
       (case print_result lib command success stdout stderr of
          Some e \<Rightarrow> execute_failed lib e
        | None \<Rightarrow> Inr (success, stdout, stderr)))"

text \<open>The fallback path for \<open>cd\<close>, \<open>pushd\<close> and \<open>popd\<close>.\<close>

definition fallback_directory_change ::
  "library \<Rightarrow> 'os system \<Rightarrow> string \<Rightarrow> string \<Rightarrow> int option \<Rightarrow> 'os world \<Rightarrow>
   exec_result \<times> 'os world" where
  "fallback_directory_change lib sys command command_lower timeout w =
    (case call_subprocess sys (command @ '' && pwd'') timeout w of
       (TimeoutExpired, w1) \<Rightarrow> (Inr (False, [], ''Timeout''), w1)
     | (ProcError e, w1) \<Rightarrow> (execute_failed lib e, w1)
     | (Completed returncode out err, w1) \<Rightarrow>
         let success = (returncode = 0);
             stdout = str_strip lib out;
             stderr = str_strip lib err
         in if success then
              let lines = py_split stdout [CHR 0x0A];
                  new_dir = last lines;
                  w2 = (if new_dir \<noteq> [] \<and> isdir sys (os w1) new_dir
                        then try_chdir sys new_dir w1 else w1);
                  is_pure_dir_cmd = (\<not> py_in ''&&'' command_lower \<and>
                                     \<not> py_in '';'' command_lower \<and>
                                     \<not> py_in ''|'' command_lower);
                  stdout' =
                    (if is_pure_dir_cmd then
                       (if py_startswith command_lower ''cd '' then []
                        else if length lines > 1 then py_join [CHR 0x0A] (butlast lines)
                        else [])
                     else if length lines > 1 then py_join [CHR 0x0A] (butlast lines)
                     else stdout)
              in (finish_fallback lib command (success, stdout', stderr), w2)
            else (finish_fallback lib command (success, stdout, stderr), w1))"

text \<open>The fallback path for every other command, with the \<open>pwd\<close> check after it.\<close>

definition fallback_plain ::
  "library \<Rightarrow> 'os system \<Rightarrow> string \<Rightarrow> int option \<Rightarrow> 'os world \<Rightarrow>
   exec_result \<times> 'os world" where
  "fallback_plain lib sys command timeout w =
    (case call_subprocess sys command timeout w of
       (TimeoutExpired, w1) \<Rightarrow> (Inr (False, [], ''Timeout''), w1)
     | (ProcError e, w1) \<Rightarrow> (execute_failed lib e, w1)
     | (Completed returncode out err, w1) \<Rightarrow>
         let success = (returncode = 0);
             stdout = str_strip lib out;
             stderr = str_strip lib err;
             w3 = (case call_subprocess sys ''pwd'' (Some 1) w1 of
                     (Completed rc2 out2 err2, w2) \<Rightarrow>
                       (if rc2 = 0 then
                          let new_dir = str_strip lib out2
                          in if new_dir \<noteq> [] \<and> isdir sys (os w2) new_dir \<and> new_dir \<noteq> cwd w2
                             then try_chdir sys new_dir w2 else w2
                        else w2)
                   | (_, w2) \<Rightarrow> w2)
         in (finish_fallback lib command (success, stdout, stderr), w3))"

text \<open>
  The persistent path: the shell's triple, then (with \<open>show_status\<close>) the prints, all
  inside \<open>try ... except Exception\<close>.
\<close>

definition persistent_path ::
  "library \<Rightarrow> 'os system \<Rightarrow> config \<Rightarrow> persistent_shell \<Rightarrow> string \<Rightarrow> int option \<Rightarrow> 'os world \<Rightarrow>
   exec_result \<times> 'os world" where
  "persistent_path lib sys cfg ps command timeout w =
    (let ((success, stdout, stderr), os', env', cwd') =
           persistent_execute sys ps (os w) (environ w) (cwd w) command timeout;
         w1 = w\<lparr>os := os', environ := env', cwd := cwd', shell_log := shell_log w @ [command]\<rparr>;
         printed =
           (if \<not> success \<and> stderr \<noteq> [] then
              (case print_command lib command ''error'' of
                 Some e \<Rightarrow> Some e
               | None \<Rightarrow> print_output lib stderr True)
            else if success \<and> stdout \<noteq> [] \<and> str_strip lib stdout \<noteq> [] then
              (if \<not> VERBOSE cfg then None else print_output lib stdout False)
            else None)
     in case printed of
          Some e \<Rightarrow> (execute_failed lib e, w1)
        | None \<Rightarrow> (Inr (success, stdout, stderr), w1))"

text \<open>From "Use persistent shell when configured" to the end of \<open>execute\<close>.\<close>

definition run_shell ::
  "library \<Rightarrow> 'os system \<Rightarrow> config \<Rightarrow> terminal_tool \<Rightarrow> string \<Rightarrow> int option \<Rightarrow> 'os world \<Rightarrow>
   exec_result \<times> 'os world" where
  "run_shell lib sys cfg tool command timeout w =
    (case (if use_persistent_shell tool then the_persistent_shell tool else None) of
       Some ps \<Rightarrow> persistent_path lib sys cfg ps command timeout w
     | None \<Rightarrow>
         (let command_lower = str_lower lib (str_strip lib command)
          in if is_directory_change_cmd command_lower
             then fallback_directory_change lib sys command command_lower timeout w
             else fallback_plain lib sys command timeout w))"

definition refused_text :: string where
  "refused_text =
    '' '' @ [CHR 0xE6, CHR 0xA3, CHR 0x80, CHR 0xE6, CHR 0xB5, CHR 0x8B, CHR 0xE5,
    CHR 0x88, CHR 0xB0, CHR 0xE5, CHR 0x8D, CHR 0xB1, CHR 0xE9, CHR 0x99, CHR 0xA9,
    CHR 0xE5, CHR 0x91, CHR 0xBD, CHR 0xE4, CHR 0xBB, CHR 0xA4, CHR 0xEF, CHR 0xBC,
    CHR 0x8C, CHR 0xE5, CHR 0xB7, CHR 0xB2, CHR 0xE6, CHR 0x8B, CHR 0x92, CHR 0xE7,
    CHR 0xBB, CHR 0x9D, CHR 0xE6, CHR 0x89, CHR 0xA7, CHR 0xE8, CHR 0xA1, CHR 0x8C] @ '': ''"

definition validation_failed_text :: string where
  "validation_failed_text =
    [CHR 0xE5, CHR 0x91, CHR 0xBD, CHR 0xE4, CHR 0xBB, CHR 0xA4, CHR 0xE9, CHR 0xAA,
    CHR 0x8C, CHR 0xE8, CHR 0xAF, CHR 0x81, CHR 0xE5, CHR 0xA4, CHR 0xB1, CHR 0xE8,
    CHR 0xB4, CHR 0xA5] @ '': ''"

text \<open>
  \<open>TerminalTool.execute(command, timeout, require_confirm)\<close>, with \<open>show_status\<close> at its
  default \<open>True\<close>. The texts printed with the command in them are "dangerous command
  detected, execution refused: <command>", "command validation failed: <msg>" and the
  command itself (\<open>print_command\<close>).
\<close>

definition execute ::
  "library \<Rightarrow> 'os system \<Rightarrow> config \<Rightarrow> terminal_tool \<Rightarrow> string \<Rightarrow> int option \<Rightarrow> bool \<Rightarrow>
   'os world \<Rightarrow> exec_result \<times> 'os world" where
  "execute lib sys cfg tool command timeout require_confirm w =
    (if safe_mode tool \<and> is_dangerous_command lib cfg command
     then (case print_error lib (refused_text @ command) of
             Some e \<Rightarrow> (Inl e, w)
           | None \<Rightarrow> (Inr (False, [], ''Dangerous command blocked''), w))
     else if \<not> fst (validate_command lib cfg tool command)
     then (case print_error lib
                  (validation_failed_text @ snd (validate_command lib cfg tool command)) of
             Some e \<Rightarrow> (Inl e, w)
           | None \<Rightarrow> (Inr (False, [], snd (validate_command lib cfg tool command)), w))
     else
       let command_lower = str_strip lib (str_lower lib command);
           is_sudo_command = py_startswith command_lower ''sudo '';
           (sudo_ok, w1) = (if is_sudo_command then ui_confirm sys SudoConfirm False w
                            else (True, w))
       in if \<not> sudo_ok then (Inr (False, [], ''User cancelled sudo command''), w1)
          else
            let is_high_risk = list_ex (\<lambda>keyword. py_in keyword command_lower)
                                 high_risk_keywords;
                (risk_ok, w2) = (if is_high_risk \<and> safe_mode tool
                                 then ui_confirm sys HighRiskConfirm False w1
                                 else (True, w1))
            in if \<not> risk_ok then (Inr (False, [], ''User cancelled high-risk command''), w2)
               else
                 (case print_command lib command ''pending'' of
                    Some e \<Rightarrow> (Inl e, w2)
                  | None \<Rightarrow>
                      let (normal_ok, w3) =
                            (if require_confirm \<and> \<not> is_sudo_command \<and> \<not> is_high_risk
                             then ui_confirm sys NormalConfirm True w2
                             else (True, w2))
                      in if \<not> normal_ok then (Inr (False, [], ''User cancelled''), w3)
                         else run_shell lib sys cfg tool command timeout w3))"

section \<open>agents.py: CommandAgent\<close>

text \<open>
  The texts of the program, as UTF-8 bytes: the observation for a rejected command
  ("command not valid: "), the summaries of the early exits ("LLM returned a None
  response", "LLM returned an empty response", "user cancelled the interaction", "commands
  invalid several times, this task has ended"), the user template ("task: ...", "please
  understand the task and start"), the observation template ("result of the previous
  command", "command", "success", "output", "error", "decide the next action from this
  result"), and the two printed texts "execution error: <e>" and "reply (repr): <r>".
\<close>

definition obs_invalid :: string where
  "obs_invalid =
    [CHR 0xE5, CHR 0x91, CHR 0xBD, CHR 0xE4, CHR 0xBB, CHR 0xA4, CHR 0xE4, CHR 0xB8,
    CHR 0x8D, CHR 0xE5, CHR 0x90, CHR 0x88, CHR 0xE6, CHR 0xB3, CHR 0x95] @ '': ''"

definition summary_llm_none :: string where
  "summary_llm_none =
    ''LLM '' @ [CHR 0xE8, CHR 0xBF, CHR 0x94, CHR 0xE5, CHR 0x9B,
    CHR 0x9E] @ '' None '' @ [CHR 0xE5, CHR 0x93, CHR 0x8D, CHR 0xE5, CHR 0xBA, CHR 0x94]"

definition summary_llm_empty :: string where
  "summary_llm_empty =
    ''LLM '' @ [CHR 0xE8, CHR 0xBF, CHR 0x94, CHR 0xE5, CHR 0x9B, CHR 0x9E, CHR 0xE7,
    CHR 0xA9, CHR 0xBA, CHR 0xE5, CHR 0x93, CHR 0x8D, CHR 0xE5, CHR 0xBA, CHR 0x94]"

definition summary_user_cancelled :: string where
  "summary_user_cancelled =
    [CHR 0xE7, CHR 0x94, CHR 0xA8, CHR 0xE6, CHR 0x88, CHR 0xB7, CHR 0xE5, CHR 0x8F,
    CHR 0x96, CHR 0xE6, CHR 0xB6, CHR 0x88, CHR 0xE4, CHR 0xBA, CHR 0xA4, CHR 0xE4,
    CHR 0xBA, CHR 0x92]"

definition summary_invalid_commands :: string where
  "summary_invalid_commands =
    [CHR 0xE5, CHR 0xA4, CHR 0x9A, CHR 0xE6, CHR 0xAC, CHR 0xA1, CHR 0xE5, CHR 0x91,
    CHR 0xBD, CHR 0xE4, CHR 0xBB, CHR 0xA4, CHR 0xE6, CHR 0x97, CHR 0xA0, CHR 0xE6,
    CHR 0x95, CHR 0x88, CHR 0xEF, CHR 0xBC, CHR 0x8C, CHR 0xE5, CHR 0xB7, CHR 0xB2,
    CHR 0xE7, CHR 0xBB, CHR 0x93, CHR 0xE6, CHR 0x9D, CHR 0x9F, CHR 0xE6, CHR 0xAD,
    CHR 0xA4, CHR 0xE6, CHR 0xAC, CHR 0xA1, CHR 0xE4, CHR 0xBB, CHR 0xBB, CHR 0xE5,
    CHR 0x8A, CHR 0xA1]"

definition user_template_head :: string where
  "user_template_head =
    [CHR 0xE4, CHR 0xBB, CHR 0xBB, CHR 0xE5, CHR 0x8A, CHR 0xA1] @ '': ''"

definition user_template_tail :: string where
  "user_template_tail =
    [CHR 0x0A, CHR 0x0A, CHR 0xE8, CHR 0xAF, CHR 0xB7, CHR 0xE7, CHR 0x90, CHR 0x86,
    CHR 0xE8, CHR 0xA7, CHR 0xA3, CHR 0xE4, CHR 0xBB, CHR 0xBB, CHR 0xE5, CHR 0x8A,
    CHR 0xA1, CHR 0xE5, CHR 0xB9, CHR 0xB6, CHR 0xE5, CHR 0xBC, CHR 0x80, CHR 0xE5,
    CHR 0xA7, CHR 0x8B, CHR 0xE6, CHR 0x89, CHR 0xA7, CHR 0xE8, CHR 0xA1, CHR 0x8C,
    CHR 0xE3, CHR 0x80, CHR 0x82]"

definition observation_1 :: string where
  "observation_1 =
    [CHR 0xE4, CHR 0xB8, CHR 0x8A, CHR 0xE4, CHR 0xB8, CHR 0x80, CHR 0xE4, CHR 0xB8,
    CHR 0xAA, CHR 0xE5, CHR 0x91, CHR 0xBD, CHR 0xE4, CHR 0xBB, CHR 0xA4, CHR 0xE7,
    CHR 0x9A, CHR 0x84, CHR 0xE6, CHR 0x89, CHR 0xA7, CHR 0xE8, CHR 0xA1, CHR 0x8C,
    CHR 0xE7, CHR 0xBB, CHR 0x93, CHR 0xE6, CHR 0x9E, CHR 0x9C, CHR 0xEF, CHR 0xBC,
    CHR 0x9A, CHR 0x0A, CHR 0x0A, CHR 0xE5, CHR 0x91, CHR 0xBD, CHR 0xE4, CHR 0xBB,
    CHR 0xA4] @ '': ''"

definition observation_2 :: string where
  "observation_2 =
    [CHR 0x0A, CHR 0xE6, CHR 0x88, CHR 0x90, CHR 0xE5, CHR 0x8A, CHR 0x9F] @ '': ''"

definition observation_3 :: string where
  "observation_3 =
    [CHR 0x0A, CHR 0xE8, CHR 0xBE, CHR 0x93, CHR 0xE5, CHR 0x87, CHR 0xBA] @ '': ''"

definition observation_4 :: string where
  "observation_4 =
    [CHR 0x0A, CHR 0xE9, CHR 0x94, CHR 0x99, CHR 0xE8, CHR 0xAF, CHR 0xAF] @ '': ''"

definition observation_5 :: string where
  "observation_5 =
    [CHR 0x0A, CHR 0x0A, CHR 0xE8, CHR 0xAF, CHR 0xB7, CHR 0xE6, CHR 0xA0, CHR 0xB9,
    CHR 0xE6, CHR 0x8D, CHR 0xAE, CHR 0xE8, CHR 0xBF, CHR 0x99, CHR 0xE4, CHR 0xB8,
    CHR 0xAA, CHR 0xE7, CHR 0xBB, CHR 0x93, CHR 0xE6, CHR 0x9E, CHR 0x9C, CHR 0xEF,
    CHR 0xBC, CHR 0x8C, CHR 0xE5, CHR 0x86, CHR 0xB3, CHR 0xE5, CHR 0xAE, CHR 0x9A,
    CHR 0xE4, CHR 0xB8, CHR 0x8B, CHR 0xE4, CHR 0xB8, CHR 0x80, CHR 0xE6, CHR 0xAD,
    CHR 0xA5, CHR 0xE8, CHR 0xA1, CHR 0x8C, CHR 0xE5, CHR 0x8A, CHR 0xA8, CHR 0xE3,
    CHR 0x80, CHR 0x82]"

definition run_error_text :: string where
  "run_error_text =
    [CHR 0xE6, CHR 0x89, CHR 0xA7, CHR 0xE8, CHR 0xA1, CHR 0x8C, CHR 0xE5, CHR 0x87,
    CHR 0xBA, CHR 0xE9, CHR 0x94, CHR 0x99] @ '': ''"

definition reply_repr_text :: string where
  "reply_repr_text =
    [CHR 0xE5, CHR 0x93, CHR 0x8D, CHR 0xE5, CHR 0xBA, CHR 0x94, CHR 0xE5, CHR 0x86,
    CHR 0x85, CHR 0xE5, CHR 0xAE, CHR 0xB9, CHR 0xEF, CHR 0xBC,
    CHR 0x88] @ ''repr'' @ [CHR 0xEF, CHR 0xBC, CHR 0x89] @ '': ''"

definition AGENT_USER_TEMPLATE :: "string \<Rightarrow> string" where
  "AGENT_USER_TEMPLATE task = user_template_head @ task @ user_template_tail"

definition py_str_bool :: "bool \<Rightarrow> string" where
  "py_str_bool b = (if b then ''True'' else ''False'')"

definition AGENT_OBSERVATION_TEMPLATE :: "string \<Rightarrow> bool \<Rightarrow> string \<Rightarrow> string \<Rightarrow> string" where
  "AGENT_OBSERVATION_TEMPLATE command success output error =
    observation_1 @ command @ observation_2 @ py_str_bool success @ observation_3 @ output @
    observation_4 @ error @ observation_5"

record process_info =
  env_SHELL :: "string option"
  pid :: string

record command_agent =
  tool :: terminal_tool
  max_steps :: int
  require_confirm :: bool
  auto_mode :: bool
  max_idle_steps :: int

text \<open>\<open>x or y\<close> for an optional integer \<open>x\<close>\<close>

definition int_or :: "int option \<Rightarrow> int \<Rightarrow> int" where
  "int_or x y = (case x of None \<Rightarrow> y | Some n \<Rightarrow> if n = 0 then y else n)"

text \<open>\<open>TerminalTool()\<close>: \<open>safe_mode=True\<close>, \<open>use_persistent_shell=False\<close>\<close>

definition TerminalTool_default :: "config \<Rightarrow> process_info \<Rightarrow> terminal_tool" where
  "TerminalTool_default cfg pinfo = TerminalTool_init cfg (env_SHELL pinfo) (pid pinfo) True False"

text \<open>\<open>CommandAgent.__init__(llm, max_steps, require_confirm, auto_mode, max_idle_steps)\<close>\<close>

definition CommandAgent_init ::
  "config \<Rightarrow> process_info \<Rightarrow> int option \<Rightarrow> bool \<Rightarrow> bool \<Rightarrow> int option \<Rightarrow> command_agent" where
  "CommandAgent_init cfg pinfo max_steps_arg require_confirm_arg auto_mode_arg max_idle_steps_arg =
    \<lparr> tool = TerminalTool_default cfg pinfo,
      max_steps = int_or max_steps_arg (MAX_STEPS cfg),
      require_confirm = require_confirm_arg,
      auto_mode = auto_mode_arg,
      max_idle_steps = int_or max_idle_steps_arg (MAX_IDLE_STEPS cfg) \<rparr>"

text \<open>The dictionary of one executed command, with its keys.\<close>

record step_info =
  s_step :: int
  s_command :: string
  s_success :: bool
  s_stdout :: string
  s_stderr :: string

text \<open>The dictionary \<open>run\<close> returns; a key that is absent is \<open>None\<close>.\<close>

record run_result =
  r_success :: bool
  r_steps :: "step_info list option"
  r_summary :: "json option"
  r_error :: "string option"

text \<open>
  \<open>self.history\<close>, the locals \<open>steps\<close> and \<open>idle_steps\<close> of \<open>run\<close>, and the world.
\<close>

record 'os agent_state =
  history :: "message list"
  steps :: "step_info list"
  idle_steps :: int
  world :: "'os world"

text \<open>
  How a pass through the loop body ends: \<open>run\<close> returns, the loop goes on, or an
  exception leaves \<open>run\<close>.
\<close>

datatype flow = Return run_result | Continue | Raise exn

definition add_to_history :: "string \<Rightarrow> string \<Rightarrow> 'os agent_state \<Rightarrow> 'os agent_state" where
  "add_to_history r c st = st\<lparr>history := history st @ [\<lparr>role = r, content = c\<rparr>]\<rparr>"

text \<open>
  \<open>idle_steps += 1\<close>, then the return when \<open>idle_steps >= self.max_idle_steps\<close>, else
  \<open>continue\<close>.
\<close>

definition idle_step ::
  "command_agent \<Rightarrow> 'os agent_state \<Rightarrow> ('os agent_state \<Rightarrow> run_result) \<Rightarrow> flow \<times> 'os agent_state" where
  "idle_step ag st result =
    (let st' = st\<lparr>idle_steps := idle_steps st + 1\<rparr>
     in if idle_steps st' \<ge> max_idle_steps ag then (Return (result st'), st')
        else (Continue, st'))"

definition failed_with_summary :: "string \<Rightarrow> 'os agent_state \<Rightarrow> run_result" where
  "failed_with_summary text st =
    \<lparr> r_success = False, r_steps = Some (steps st), r_summary = Some (JStr text),
      r_error = None \<rparr>"

definition failed_with_error :: "string \<Rightarrow> 'os agent_state \<Rightarrow> run_result" where
  "failed_with_error text st =
    \<lparr> r_success = False, r_steps = Some (steps st), r_summary = None, r_error = Some text \<rparr>"

text \<open>
  \<open>except Exception as e\<close> around the loop body (agents.py 394-412): the text
  "execution error: <e>" is printed, in verbose mode the traceback too, and \<open>run\<close>
  returns the failure. An exception raised by these prints leaves \<open>run\<close>.
\<close>

definition handle_exception ::
  "library \<Rightarrow> config \<Rightarrow> exn \<Rightarrow> 'os agent_state \<Rightarrow> flow \<times> 'os agent_state" where
  "handle_exception lib cfg e st =
    (case print_error lib (run_error_text @ exn_message e) of
       Some e2 \<Rightarrow> (Raise e2, st)
     | None \<Rightarrow>
         (case (if VERBOSE cfg then print_traceback lib e else None) of
            Some e3 \<Rightarrow> (Raise e3, st)
          | None \<Rightarrow> (Return (failed_with_error (exn_message e) st), st)))"

text \<open>
  The branch \<open>if "command" in command_info\<close> of \<open>run\<close>. \<open>validate_command\<close> rejects a
  value that is false (\<open>not command\<close>) and raises \<open>AttributeError\<close> on any other value that
  is not a string. The rejection is printed ("command validation failed: <msg>") before
  the observation is appended.
\<close>

definition command_branch ::
  "library \<Rightarrow> 'os system \<Rightarrow> config \<Rightarrow> command_agent \<Rightarrow> int \<Rightarrow> json \<Rightarrow> 'os agent_state \<Rightarrow>
   flow \<times> 'os agent_state" where
  "command_branch lib sys cfg ag current_step cmd st =
    (let rejected = (\<lambda>msg.
           case print_error lib (validation_failed_text @ msg) of
             Some e \<Rightarrow> handle_exception lib cfg e st
           | None \<Rightarrow>
               idle_step ag (add_to_history ''user'' (obs_invalid @ msg) st)
                 (failed_with_summary summary_invalid_commands))
     in if \<not> py_truthy lib cmd then rejected msg_empty
        else case cmd of
          JStr command \<Rightarrow>
            (case validate_command lib cfg (tool ag) command of
               (False, msg) \<Rightarrow> rejected msg
             | (True, msg) \<Rightarrow>
                 let st1 = st\<lparr>idle_steps := 0\<rparr>
                 in case execute lib sys cfg (tool ag) command (Some 30)
                           (require_confirm ag \<and> \<not> auto_mode ag) (world st1) of
                      (Inl e, w') \<Rightarrow> handle_exception lib cfg e (st1\<lparr>world := w'\<rparr>)
                    | (Inr (success, stdout, stderr), w') \<Rightarrow>
                        let info = \<lparr> s_step = current_step, s_command = command,
                                     s_success = success, s_stdout = stdout,
                                     s_stderr = stderr \<rparr>;
                            st2 = st1\<lparr>world := w', steps := steps st1 @ [info]\<rparr>;
                            observation = AGENT_OBSERVATION_TEMPLATE command success
                                            (if success then stdout else stderr)
                                            (if \<not> success then stderr else [])
                        in (Continue, add_to_history ''user'' observation st2))
        | other \<Rightarrow> handle_exception lib cfg (AttributeError other ''strip'') st)"

text \<open>The interaction branch.\<close>

definition interaction_branch ::
  "library \<Rightarrow> 'os system \<Rightarrow> config \<Rightarrow> command_agent \<Rightarrow> string \<Rightarrow> dict \<Rightarrow> 'os agent_state \<Rightarrow>
   flow \<times> 'os agent_state" where
  "interaction_branch lib sys cfg ag response command_info st =
    (if \<not> auto_mode ag then
       let w = world st;
           st1 = st\<lparr>world := w\<lparr>interactions := Suc (interactions w)\<rparr>\<rparr>
       in case ui_interact sys (interactions w)
                 (dict_get command_info ''message'' (JStr response))
                 (dict_get command_info ''options'' JNull)
                 (dict_get command_info ''allow_custom_input'' (JBool False)) of
            UiRaise e \<Rightarrow> handle_exception lib cfg e st1
          | UiResponse user_response \<Rightarrow>
              if user_response = []
              then (Return (failed_with_summary summary_user_cancelled st1), st1)
              else (Continue, add_to_history ''user'' user_response st1)
     else (Continue, st))"

text \<open>
  The loop body after a reply has been parsed to \<open>command_info\<close>: the interaction, the
  thought (printed when it is true), the status with its summary (printed when it is
  true), the command.
\<close>

definition dispatch ::
  "library \<Rightarrow> 'os system \<Rightarrow> config \<Rightarrow> command_agent \<Rightarrow> int \<Rightarrow> string \<Rightarrow> dict \<Rightarrow>
   'os agent_state \<Rightarrow> flow \<times> 'os agent_state" where
  "dispatch lib sys cfg ag current_step response command_info st =
    (if dict_has command_info ''interaction'' \<and>
        py_truthy lib (dict_get command_info ''interaction'' JNull)
     then interaction_branch lib sys cfg ag response command_info st
     else
       let thought = dict_get command_info ''thought'' JNull
       in case (if py_truthy lib thought then print_thought lib (py_str lib thought)
                else None) of
            Some e \<Rightarrow> handle_exception lib cfg e st
          | None \<Rightarrow>
              if dict_has command_info ''status'' then
                let summary = dict_get command_info ''summary'' (JStr [])
                in case (if py_truthy lib summary then print_assistant lib (py_str lib summary)
                         else None) of
                     Some e \<Rightarrow> handle_exception lib cfg e st
                   | None \<Rightarrow>
                       (Return \<lparr> r_success =
                                   (dict_get command_info ''status'' JNull = JStr ''success''),
                                 r_steps = Some (steps st),
                                 r_summary = Some summary,
                                 r_error = None \<rparr>,
                        st)
              else if dict_has command_info ''command''
              then command_branch lib sys cfg ag current_step
                     (dict_get command_info ''command'' JNull) st
              else (Continue, st))"

text \<open>
  One pass through the body of \<open>while current_step < self.max_steps\<close>, from the call of
  the language model on; \<open>current_step\<close> is already incremented. When the call failed
  its text is printed ("LLM call failed (<type>): <text>", in verbose mode the traceback
  too); an exception raised by that print goes to the handler around the loop body.
\<close>

definition iteration ::
  "library \<Rightarrow> 'os system \<Rightarrow> config \<Rightarrow> command_agent \<Rightarrow> int \<Rightarrow> 'os agent_state \<Rightarrow>
   flow \<times> 'os agent_state" where
  "iteration lib sys cfg ag current_step st =
    (let w = world st;
         st0 = st\<lparr>world := w\<lparr>llm_calls := Suc (llm_calls w)\<rparr>\<rparr>
     in case llm_generate sys (llm_calls w) (history st) of
          LLMRaise llm_error \<Rightarrow>
            (case print_error lib (''LLM call failed ('' @ exn_type llm_error @ ''): '' @
                                   exn_message llm_error) of
               Some e \<Rightarrow> handle_exception lib cfg e st0
             | None \<Rightarrow>
                 (case (if VERBOSE cfg then print_traceback lib llm_error else None) of
                    Some e \<Rightarrow> handle_exception lib cfg e st0
                  | None \<Rightarrow>
                      idle_step ag st0
                        (failed_with_error (''LLM call failed: '' @ exn_message llm_error))))
        | LLMNone \<Rightarrow> idle_step ag st0 (failed_with_summary summary_llm_none)
        | LLMText response \<Rightarrow>
            if str_strip lib response = []
            then (case print_info lib (reply_repr_text @ str_repr lib response) of
                    Some e \<Rightarrow> handle_exception lib cfg e st0
                  | None \<Rightarrow> idle_step ag st0 (failed_with_summary summary_llm_empty))
            else
              let st1 = add_to_history ''assistant'' response st0
              in case parse_response lib response of
                   Inl e \<Rightarrow> handle_exception lib cfg e st1
                 | Inr None \<Rightarrow>
                     (case print_assistant lib response of
                        Some e \<Rightarrow> handle_exception lib cfg e st1
                      | None \<Rightarrow>
                          if is_final_summary lib response
                          then (Return \<lparr> r_success = True, r_steps = Some (steps st1),
                                          r_summary = Some (JStr response), r_error = None \<rparr>,
                                st1)
                          else idle_step ag st1 (failed_with_summary response))
                 | Inr (Some command_info) \<Rightarrow>
                     dispatch lib sys cfg ag current_step response command_info
                       (st1\<lparr>idle_steps := 0\<rparr>))"

text \<open>The result of \<open>run\<close>: the dictionary it returns, or the exception that leaves it.\<close>

datatype run_outcome = Returned run_result | Raised exn

text \<open>
  \<open>while current_step < self.max_steps\<close>, with the return after the loop. The result comes
  with the final value of \<open>current_step\<close>.
\<close>

function run_loop ::
  "library \<Rightarrow> 'os system \<Rightarrow> config \<Rightarrow> command_agent \<Rightarrow> int \<Rightarrow> 'os agent_state \<Rightarrow>
   run_outcome \<times> int \<times> 'os agent_state" where
  "run_loop lib sys cfg ag current_step st =
    (if current_step < max_steps ag then
       (case iteration lib sys cfg ag (current_step + 1) st of
          (Return r, st') \<Rightarrow> (Returned r, current_step + 1, st')
        | (Raise e, st') \<Rightarrow> (Raised e, current_step + 1, st')
        | (Continue, st') \<Rightarrow> run_loop lib sys cfg ag (current_step + 1) st')
     else (Returned (failed_with_error ''Max steps reached'' st), current_step, st))"
  by pat_completeness auto
termination
  by (relation "measure (\<lambda>(lib, sys, cfg, ag, current_step, st).
                  nat (max_steps ag - current_step))")
     auto

declare run_loop.simps [simp del]

text \<open>
  \<open>CommandAgent.run(task, continue_execution)\<close>, from the history and the world it
  starts in.
\<close>

definition run ::
  "library \<Rightarrow> 'os system \<Rightarrow> config \<Rightarrow> command_agent \<Rightarrow> string option \<Rightarrow> bool \<Rightarrow>
   message list \<Rightarrow> 'os world \<Rightarrow> run_outcome \<times> int \<times> 'os agent_state" where
  "run lib sys cfg ag task continue_execution hist w =
    (let start = \<lparr> history = hist, steps = [], idle_steps = 0, world = w \<rparr>
     in if \<not> continue_execution \<and> task \<noteq> None \<and> task \<noteq> Some []
        then run_loop lib sys cfg ag 0
               (add_to_history ''user'' (AGENT_USER_TEMPLATE (the task)) start)
        else if continue_execution then run_loop lib sys cfg ag 0 start
        else (Returned \<lparr> r_success = False, r_steps = None, r_summary = None,
                          r_error = Some ''No task provided'' \<rparr>, 0, start))"

section \<open>A reference library for the examples\<close>

text \<open>
  The statements about the program hold for every library. The examples need one to
  compute with; this one does what Python 3 and \<open>rich\<close> do on the texts of the examples:
  ASCII text, and non-ASCII characters that have no case and match no class of the
  patterns (the program's own messages, accented lower-case letters).
\<close>

subsection \<open>\<open>str.lower\<close>, \<open>str.strip\<close>, \<open>repr\<close>, \<open>str\<close>\<close>

definition ascii_upper :: string where
  "ascii_upper = ''ABCDEFGHIJKLMNOPQRSTUVWXYZ''"

definition ascii_lower :: string where
  "ascii_lower = ''abcdefghijklmnopqrstuvwxyz''"

definition lower_char :: "char \<Rightarrow> char" where
  "lower_char c = (case map_of (zip ascii_upper ascii_lower) c of None \<Rightarrow> c | Some l \<Rightarrow> l)"

text \<open>\<open>s.lower()\<close> for a text whose letters outside ASCII are in lower case or have no case.\<close>

definition lower_ascii :: "string \<Rightarrow> string" where
  "lower_ascii s = map lower_char s"

text \<open>The characters of a text: each leading byte with the continuation bytes after it.\<close>

function utf8_chars :: "string \<Rightarrow> string list" where
  "utf8_chars [] = []"
| "utf8_chars (c # cs) =
     (c # takeWhile utf8_continuation cs) # utf8_chars (dropWhile utf8_continuation cs)"
  by pat_completeness auto
termination
  by (relation "measure length") (auto simp: less_Suc_eq_le length_dropWhile_le)

text \<open>
  The characters \<open>str.isspace\<close> accepts: U+0009 to U+000D, U+001C to U+0020, U+0085,
  U+00A0, U+1680, U+2000 to U+200A, U+2028, U+2029, U+202F, U+205F, U+3000.
\<close>

definition unicode_whitespace :: "string list" where
  "unicode_whitespace =
    [[CHR 0x09], [CHR 0x0A], [CHR 0x0B], [CHR 0x0C], [CHR 0x0D], [CHR 0x1C], [CHR 0x1D],
     [CHR 0x1E], [CHR 0x1F], [CHR 0x20], [CHR 0xC2, CHR 0x85], [CHR 0xC2, CHR 0xA0],
     [CHR 0xE1, CHR 0x9A, CHR 0x80], [CHR 0xE2, CHR 0x80, CHR 0x80],
     [CHR 0xE2, CHR 0x80, CHR 0x81], [CHR 0xE2, CHR 0x80, CHR 0x82],
     [CHR 0xE2, CHR 0x80, CHR 0x83], [CHR 0xE2, CHR 0x80, CHR 0x84],
     [CHR 0xE2, CHR 0x80, CHR 0x85], [CHR 0xE2, CHR 0x80, CHR 0x86],
     [CHR 0xE2, CHR 0x80, CHR 0x87], [CHR 0xE2, CHR 0x80, CHR 0x88],
     [CHR 0xE2, CHR 0x80, CHR 0x89], [CHR 0xE2, CHR 0x80, CHR 0x8A],
     [CHR 0xE2, CHR 0x80, CHR 0xA8], [CHR 0xE2, CHR 0x80, CHR 0xA9],
     [CHR 0xE2, CHR 0x80, CHR 0xAF], [CHR 0xE2, CHR 0x81, CHR 0x9F],
     [CHR 0xE3, CHR 0x80, CHR 0x80]]"

definition is_whitespace :: "string \<Rightarrow> bool" where
  "is_whitespace ch = (ch \<in> set unicode_whitespace)"

text \<open>\<open>s.strip()\<close>\<close>

definition strip_unicode :: "string \<Rightarrow> string" where
  "strip_unicode s =
    concat (rev (dropWhile is_whitespace (rev (dropWhile is_whitespace (utf8_chars s)))))"

text \<open>\<open>repr(s)\<close> for printable ASCII text without quotes and backslashes.\<close>

definition repr_plain :: "string \<Rightarrow> string" where
  "repr_plain s = [CHR 0x27] @ s @ [CHR 0x27]"

text \<open>\<open>str(v)\<close> for \<open>None\<close>, a truth value and an integer.\<close>

definition str_of_scalar :: "json \<Rightarrow> string" where
  "str_of_scalar v =
    (case v of JNull \<Rightarrow> ''None'' | JBool b \<Rightarrow> py_str_bool b | JNum a \<Rightarrow> a | JStr s \<Rightarrow> s
     | _ \<Rightarrow> [])"

subsection \<open>Regular expressions (the \<open>re\<close> module)\<close>

text \<open>
  The patterns of the program use literals, character classes, concatenation,
  alternation and repetition only, so \<open>re.search\<close> decides membership of some substring
  in a regular language. Matching is by derivatives, byte by byte; the classes are
  those of ASCII text.
\<close>

datatype rx = Zero | Eps | Atom "char \<Rightarrow> bool" | Seq rx rx | Alt rx rx | Star rx

fun nullable :: "rx \<Rightarrow> bool" where
  "nullable Zero = False"
| "nullable Eps = True"
| "nullable (Atom p) = False"
| "nullable (Seq r s) = (nullable r \<and> nullable s)"
| "nullable (Alt r s) = (nullable r \<or> nullable s)"
| "nullable (Star r) = True"

fun deriv :: "char \<Rightarrow> rx \<Rightarrow> rx" where
  "deriv c Zero = Zero"
| "deriv c Eps = Zero"
| "deriv c (Atom p) = (if p c then Eps else Zero)"
| "deriv c (Seq r s) =
     (if nullable r then Alt (Seq (deriv c r) s) (deriv c s) else Seq (deriv c r) s)"
| "deriv c (Alt r s) = Alt (deriv c r) (deriv c s)"
| "deriv c (Star r) = Seq (deriv c r) (Star r)"

text \<open>Some prefix of the string matches.\<close>

fun re_match :: "rx \<Rightarrow> string \<Rightarrow> bool" where
  "re_match r [] = nullable r"
| "re_match r (c # cs) = (nullable r \<or> re_match (deriv c r) cs)"

text \<open>\<open>re.search(r, s) is not None\<close>: some substring matches.\<close>

fun re_search :: "rx \<Rightarrow> string \<Rightarrow> bool" where
  "re_search r [] = nullable r"
| "re_search r (c # cs) = (re_match r (c # cs) \<or> re_search r cs)"

definition Chr :: "char \<Rightarrow> rx" where
  "Chr c = Atom (\<lambda>x. x = c)"

definition Lit :: "string \<Rightarrow> rx" where
  "Lit s = foldr (\<lambda>c r. Seq (Chr c) r) s Eps"

definition Plus :: "rx \<Rightarrow> rx" where
  "Plus r = Seq r (Star r)"

definition Opt :: "rx \<Rightarrow> rx" where
  "Opt r = Alt r Eps"

definition Alts :: "string list \<Rightarrow> rx" where
  "Alts ss = foldr (\<lambda>s r. Alt (Lit s) r) ss Zero"

definition Seqs :: "rx list \<Rightarrow> rx" where
  "Seqs rs = foldr Seq rs Eps"

text \<open>\<open>\s\<close>, \<open>\w\<close>, \<open>.\<close> (without \<open>re.DOTALL\<close>), \<open>[0-7]\<close>\<close>

definition ascii_space :: "char \<Rightarrow> bool" where
  "ascii_space c = (c \<in> set [CHR 0x20, CHR 0x09, CHR 0x0A, CHR 0x0B, CHR 0x0C, CHR 0x0D,
                               CHR 0x1C, CHR 0x1D, CHR 0x1E, CHR 0x1F])"

definition rx_space :: rx where
  "rx_space = Atom ascii_space"

definition rx_word :: rx where
  "rx_word = Atom (\<lambda>c. c \<in> set (ascii_lower @ ascii_upper @ ''0123456789_''))"

definition rx_dot :: rx where
  "rx_dot = Atom (\<lambda>c. c \<noteq> CHR 0x0A)"

definition rx_octal :: rx where
  "rx_octal = Atom (\<lambda>c. c \<in> set ''01234567'')"

text \<open>The seven patterns of \<open>Config.DANGEROUS_PATTERNS\<close>, in their order.\<close>

definition dangerous_rx :: "rx list" where
  "dangerous_rx =
    [Seqs [Lit ''rm'', Plus rx_space, Lit ''-rf'', Plus rx_space, Lit ''/'',
           Atom (\<lambda>c. c \<noteq> CHR ''/'')],
     Seqs [Lit ''rm'', Plus rx_space, Lit ''-rf'', Plus rx_space, Lit ''/'',
           Alts [''bin'', ''usr'', ''etc'', ''var'', ''sys'', ''proc'', ''boot'', ''root'']],
     Seqs [Lit ''mkfs'', Opt (Chr CHR ''.''), Star rx_word, Plus rx_space, Lit ''/''],
     Seqs [Lit ''dd'', Plus rx_space, Lit ''if='', Star rx_dot, Plus rx_space,
           Lit ''of=/dev/''],
     Seqs [Lit ''chmod'', Plus rx_space, rx_octal, rx_octal, rx_octal, Plus rx_space,
           Lit ''/''],
     Seqs [Lit ''sudo'', Plus rx_space,
           Alts [''rm'', ''mkfs'', ''fdisk'', ''dd'', ''chmod'', ''chown'']],
     Seqs [Lit '':(){'', Star rx_dot, Lit '':|'', Star rx_dot, Lit ''&'', Star rx_dot,
           Lit ''};:'']]"

text \<open>
  \<open>re.search(pattern, s, re.IGNORECASE)\<close> for the patterns of the program: they are
  written in lower case, so a character matches when its lower-case form does.
\<close>

definition search_ignorecase :: "string \<Rightarrow> string \<Rightarrow> bool" where
  "search_ignorecase pattern s =
    (case map_of (zip DANGEROUS_PATTERNS dangerous_rx) pattern of
       None \<Rightarrow> False
     | Some r \<Rightarrow> re_search r (lower_ascii s))"

text \<open>
  \<open>re.findall\<close> of the pattern of the fenced block. The lazy body ends at the first
  closing brace that is followed by optional whitespace and the closing fence; a start
  position without such a brace fails and the search moves on by one character. After
  a match the search goes on behind it (\<open>skip\<close> counts the characters still to pass).
\<close>

definition fence_open :: string where
  "fence_open = [CHR 0x60, CHR 0x60, CHR 0x60] @ ''json''"

definition fence_close :: string where
  "fence_close = [CHR 0x60, CHR 0x60, CHR 0x60]"

definition closes_fence :: "string \<Rightarrow> bool" where
  "closes_fence rest = prefix fence_close (dropWhile ascii_space rest)"

fun lazy_body :: "string \<Rightarrow> string \<Rightarrow> (string \<times> nat) option" where
  "lazy_body acc [] = None"
| "lazy_body acc (c # cs) =
     (if c = CHR ''}'' \<and> closes_fence cs
      then Some (rev (c # acc), length (dropWhile ascii_space cs) - length fence_close)
      else lazy_body (c # acc) cs)"

text \<open>The group of a match that starts here, and the length of the match.\<close>

definition fenced_at :: "string \<Rightarrow> (string \<times> nat) option" where
  "fenced_at s =
    (if prefix fence_open s
     then (case dropWhile ascii_space (drop (length fence_open) s) of
             [] \<Rightarrow> None
           | d # ds \<Rightarrow>
               if d = CHR ''{''
               then (case lazy_body [d] ds of
                       None \<Rightarrow> None
                     | Some (body, left) \<Rightarrow> Some (body, length s - left))
               else None)
     else None)"

fun findall_fenced :: "nat \<Rightarrow> string \<Rightarrow> string list" where
  "findall_fenced skip [] = []"
| "findall_fenced (Suc k) (c # cs) = findall_fenced k cs"
| "findall_fenced 0 (c # cs) =
     (case fenced_at (c # cs) of
        Some (body, n) \<Rightarrow> body # findall_fenced (n - 1) cs
      | None \<Rightarrow> findall_fenced 0 cs)"

definition findall_dotall :: "string \<Rightarrow> string \<Rightarrow> string list" where
  "findall_dotall pattern s = (if pattern = fence_pattern then findall_fenced 0 s else [])"

subsection \<open>JSON (the \<open>json\<close> module)\<close>

text \<open>
  \<open>json.loads\<close> with the default (strict) decoder, for a text whose integers have at
  most 4300 digits and whose nesting stays below the recursion limit.
\<close>

datatype token =
  TLBrace | TRBrace | TLBrack | TRBrack | TColon | TComma | TString string | TAtom string

text \<open>
  The lexer state: between tokens; inside a bare word (number or literal name); inside a
  string; after a backslash; inside the four hex digits of \<open>\u\<close>. Inside a string the
  decoded bytes are kept reversed, with the high surrogate of a \<open>\u\<close> escape just read that
  may still pair with a following \<open>\u\<close> escape.
\<close>

datatype lexmode =
    LIdle
  | LAtom string
  | LStr string "nat option"
  | LEsc string "nat option"
  | LHex string "nat option" "nat list"

definition json_ws :: "char \<Rightarrow> bool" where
  "json_ws c = (c \<in> set [CHR 0x20, CHR 0x09, CHR 0x0A, CHR 0x0D])"

definition json_punct :: "char \<Rightarrow> token option" where
  "json_punct c =
    map_of [(CHR ''{'', TLBrace), (CHR ''}'', TRBrace), (CHR ''['', TLBrack),
            (CHR '']'', TRBrack), (CHR '':'', TColon), (CHR '','', TComma)] c"

definition utf8_encode :: "nat \<Rightarrow> string" where
  "utf8_encode n =
    (if n < 0x80 then [char_of n]
     else if n < 0x800 then [char_of (0xC0 + n div 0x40), char_of (0x80 + n mod 0x40)]
     else if n < 0x10000 then
       [char_of (0xE0 + n div 0x1000), char_of (0x80 + n div 0x40 mod 0x40),
        char_of (0x80 + n mod 0x40)]
     else
       [char_of (0xF0 + n div 0x40000), char_of (0x80 + n div 0x1000 mod 0x40),
        char_of (0x80 + n div 0x40 mod 0x40), char_of (0x80 + n mod 0x40)])"

definition hex_val :: "char \<Rightarrow> nat option" where
  "hex_val c =
    map_of (zip ''0123456789abcdef'' [0, 1, 2, 3, 4, 5, 6, 7, 8, 9, 10, 11, 12, 13, 14, 15] @
            zip ''ABCDEF'' [10, 11, 12, 13, 14, 15]) c"

definition simple_escape :: "char \<Rightarrow> char option" where
  "simple_escape c =
    map_of [(CHR 0x22, CHR 0x22), (CHR 0x5C, CHR 0x5C), (CHR ''/'', CHR ''/''),
            (CHR ''b'', CHR 0x08), (CHR ''f'', CHR 0x0C), (CHR ''n'', CHR 0x0A),
            (CHR ''r'', CHR 0x0D), (CHR ''t'', CHR 0x09)] c"

definition flush_surrogate :: "nat option \<Rightarrow> string \<Rightarrow> string" where
  "flush_surrogate pend acc =
    (case pend of None \<Rightarrow> acc | Some hi \<Rightarrow> rev (utf8_encode hi) @ acc)"

definition is_high_surrogate :: "nat \<Rightarrow> bool" where
  "is_high_surrogate u = (0xD800 \<le> u \<and> u \<le> 0xDBFF)"

definition is_low_surrogate :: "nat \<Rightarrow> bool" where
  "is_low_surrogate u = (0xDC00 \<le> u \<and> u \<le> 0xDFFF)"

definition complete_u :: "string \<Rightarrow> nat option \<Rightarrow> nat \<Rightarrow> lexmode" where
  "complete_u acc pend u =
    (case pend of
       Some hi \<Rightarrow>
         if is_low_surrogate u
         then LStr (rev (utf8_encode (0x10000 + (hi - 0xD800) * 0x400 + (u - 0xDC00))) @ acc)
                   None
         else if is_high_surrogate u then LStr (flush_surrogate pend acc) (Some u)
         else LStr (rev (utf8_encode u) @ flush_surrogate pend acc) None
     | None \<Rightarrow>
         if is_high_surrogate u then LStr acc (Some u)
         else LStr (rev (utf8_encode u) @ acc) None)"

definition lex_idle :: "token list \<Rightarrow> char \<Rightarrow> (lexmode \<times> token list) option" where
  "lex_idle acc c =
    (if json_ws c then Some (LIdle, acc)
     else if c = CHR 0x22 then Some (LStr [] None, acc)
     else case json_punct c of
            Some t \<Rightarrow> Some (LIdle, t # acc)
          | None \<Rightarrow> Some (LAtom [c], acc))"

fun lex_step :: "lexmode \<Rightarrow> token list \<Rightarrow> char \<Rightarrow> (lexmode \<times> token list) option" where
  "lex_step LIdle acc c = lex_idle acc c"
| "lex_step (LAtom a) acc c =
     (if json_ws c \<or> c = CHR 0x22 \<or> json_punct c \<noteq> None
      then lex_idle (TAtom (rev a) # acc) c
      else Some (LAtom (c # a), acc))"
| "lex_step (LStr s pend) acc c =
     (if c = CHR 0x22 then Some (LIdle, TString (rev (flush_surrogate pend s)) # acc)
      else if c = CHR 0x5C then Some (LEsc s pend, acc)
      else if (of_char c :: nat) < 0x20 then None
      else Some (LStr (c # flush_surrogate pend s) None, acc))"
| "lex_step (LEsc s pend) acc c =
     (if c = CHR ''u'' then Some (LHex s pend [], acc)
      else case simple_escape c of
             Some d \<Rightarrow> Some (LStr (d # flush_surrogate pend s) None, acc)
           | None \<Rightarrow> None)"
| "lex_step (LHex s pend ds) acc c =
     (case hex_val c of
        None \<Rightarrow> None
      | Some d \<Rightarrow>
          if length ds = 3
          then Some (complete_u s pend (foldl (\<lambda>v x. v * 16 + x) 0 (ds @ [d])), acc)
          else Some (LHex s pend (ds @ [d]), acc))"

fun json_lex :: "lexmode \<Rightarrow> token list \<Rightarrow> string \<Rightarrow> token list option" where
  "json_lex m acc [] =
     (case m of
        LIdle \<Rightarrow> Some (rev acc)
      | LAtom a \<Rightarrow> Some (rev (TAtom (rev a) # acc))
      | _ \<Rightarrow> None)"
| "json_lex m acc (c # cs) =
     (case lex_step m acc c of
        None \<Rightarrow> None
      | Some (m', acc') \<Rightarrow> json_lex m' acc' cs)"

text \<open>The whole string is in the language of the expression.\<close>

definition re_fullmatch :: "rx \<Rightarrow> string \<Rightarrow> bool" where
  "re_fullmatch r s = nullable (foldl (\<lambda>r c. deriv c r) r s)"

definition rx_digit :: rx where
  "rx_digit = Atom (\<lambda>c. c \<in> set ''0123456789'')"

text \<open>\<open>-?(0|[1-9][0-9]*)(\.[0-9]+)?([eE][-+]?[0-9]+)?\<close>\<close>

definition NUMBER_RE :: rx where
  "NUMBER_RE =
    Seqs [Opt (Chr CHR ''-''),
          Alt (Chr CHR ''0'') (Seq (Atom (\<lambda>c. c \<in> set ''123456789'')) (Star rx_digit)),
          Opt (Seq (Chr CHR ''.'') (Plus rx_digit)),
          Opt (Seqs [Atom (\<lambda>c. c \<in> set ''eE''), Opt (Atom (\<lambda>c. c \<in> set ''-+'')),
                     Plus rx_digit])]"

definition atom_value :: "string \<Rightarrow> json option" where
  "atom_value a =
    (if a = ''null'' then Some JNull
     else if a = ''true'' then Some (JBool True)
     else if a = ''false'' then Some (JBool False)
     else if a \<in> set [''NaN'', ''Infinity'', ''-Infinity''] then Some (JNum a)
     else if re_fullmatch NUMBER_RE a then Some (JNum a)
     else None)"

text \<open>
  The parser runs over the tokens with a stack of the containers that are still open:
  an array with its items so far (reversed), an object with its pairs so far and the key
  that waits for its value.
\<close>

datatype frame = FArr "json list" | FObj dict "string option"

datatype pmode = PValue | PValueOrClose | PKeyOrClose | PKey | PColon | PNext | PDone json

fun deliver :: "json \<Rightarrow> frame list \<Rightarrow> (pmode \<times> frame list) option" where
  "deliver v [] = Some (PDone v, [])"
| "deliver v (FArr items # st) = Some (PNext, FArr (v # items) # st)"
| "deliver v (FObj kvs (Some k) # st) = Some (PNext, FObj (AList.update k v kvs) None # st)"
| "deliver v (FObj kvs None # st) = None"

fun close_array :: "frame list \<Rightarrow> (pmode \<times> frame list) option" where
  "close_array (FArr items # st) = deliver (JArr (rev items)) st"
| "close_array st = None"

fun close_object :: "frame list \<Rightarrow> (pmode \<times> frame list) option" where
  "close_object (FObj kvs None # st) = deliver (JObj kvs) st"
| "close_object st = None"

fun set_key :: "string \<Rightarrow> frame list \<Rightarrow> (pmode \<times> frame list) option" where
  "set_key k (FObj kvs None # st) = Some (PColon, FObj kvs (Some k) # st)"
| "set_key k st = None"

fun start_value :: "frame list \<Rightarrow> token \<Rightarrow> (pmode \<times> frame list) option" where
  "start_value st TLBrace = Some (PKeyOrClose, FObj [] None # st)"
| "start_value st TLBrack = Some (PValueOrClose, FArr [] # st)"
| "start_value st (TString s) = deliver (JStr s) st"
| "start_value st (TAtom a) = (case atom_value a of None \<Rightarrow> None | Some v \<Rightarrow> deliver v st)"
| "start_value st t = None"

fun parse_step :: "pmode \<Rightarrow> frame list \<Rightarrow> token \<Rightarrow> (pmode \<times> frame list) option" where
  "parse_step PValue st t = start_value st t"
| "parse_step PValueOrClose st t = (if t = TRBrack then close_array st else start_value st t)"
| "parse_step PKeyOrClose st t =
     (case t of TRBrace \<Rightarrow> close_object st | TString k \<Rightarrow> set_key k st | _ \<Rightarrow> None)"
| "parse_step PKey st t = (case t of TString k \<Rightarrow> set_key k st | _ \<Rightarrow> None)"
| "parse_step PColon st t = (if t = TColon then Some (PValue, st) else None)"
| "parse_step PNext st t =
     (case st of
        FArr items # st' \<Rightarrow>
          (if t = TComma then Some (PValue, st) else if t = TRBrack then close_array st
           else None)
      | FObj kvs k # st' \<Rightarrow>
          (if t = TComma then Some (PKey, st) else if t = TRBrace then close_object st
           else None)
      | [] \<Rightarrow> None)"
| "parse_step (PDone v) st t = None"

fun json_parse :: "pmode \<Rightarrow> frame list \<Rightarrow> token list \<Rightarrow> json option" where
  "json_parse m st [] = (case m of PDone v \<Rightarrow> Some v | _ \<Rightarrow> None)"
| "json_parse m st (t # ts) =
     (case parse_step m st t of
        None \<Rightarrow> None
      | Some (m', st') \<Rightarrow> json_parse m' st' ts)"

definition loads :: "string \<Rightarrow> json_outcome" where
  "loads s =
    (case json_lex LIdle [] s of
       None \<Rightarrow> JSONDecodeError
     | Some toks \<Rightarrow>
         (case json_parse PValue [] toks of None \<Rightarrow> JSONDecodeError | Some v \<Rightarrow> Decoded v))"

text \<open>Whether a number is zero, for a literal without an exponent.\<close>

definition literal_is_zero :: "string \<Rightarrow> bool" where
  "literal_is_zero a =
    (a \<notin> set [''NaN'', ''Infinity'', ''-Infinity''] \<and>
     list_all (\<lambda>c. c = CHR ''0'')
       (filter (\<lambda>c. c \<in> set ''0123456789'') (takeWhile (\<lambda>c. c \<notin> set ''eE'') a)))"

subsection \<open>The console of \<open>rich\<close>\<close>

text \<open>
  \<open>Console.print\<close> reads \<open>[name]\<close> as an opening and \<open>[/name]\<close> as a closing tag, and
  raises \<open>MarkupError\<close> at a closing tag with no opening tag before it. Here \<open>[/x]\<close> is
  such a tag, and the one the examples use; every other text of the examples prints.
  The text of the exception names the tag and its position, counted in characters.
\<close>

fun text_before :: "string \<Rightarrow> string \<Rightarrow> string \<Rightarrow> string option" where
  "text_before sub acc [] = (if sub = [] then Some (rev acc) else None)"
| "text_before sub acc (c # cs) =
     (if prefix sub (c # cs) then Some (rev acc) else text_before sub (c # acc) cs)"

function show_nat :: "nat \<Rightarrow> string" where
  "show_nat n =
    (if n < 10 then [char_of (48 + n)] else show_nat (n div 10) @ [char_of (48 + n mod 10)])"
  by pat_completeness auto
termination
  by (relation "measure id") auto

declare show_nat.simps [simp del]

definition MarkupError :: "string \<Rightarrow> nat \<Rightarrow> exn" where
  "MarkupError tag position =
    Exn ''MarkupError''
      (''closing tag '' @ [CHR 0x27] @ tag @ [CHR 0x27] @ '' at position '' @
       show_nat position @ '' doesn'' @ [CHR 0x27] @ ''t match any open tag'')"

definition rich_print :: "string \<Rightarrow> exn option" where
  "rich_print markup =
    (case text_before ''[/x]'' [] markup of
       None \<Rightarrow> None
     | Some lead \<Rightarrow> Some (MarkupError ''[/x]'' (nat (py_len lead))))"

text \<open>
  A panel renders its content; the titles of the program are fixed texts. The traceback
  is printed in verbose mode only, which the examples do not use.
\<close>

definition reference_library :: library where
  "reference_library =
    \<lparr> str_lower = lower_ascii,
      str_strip = strip_unicode,
      str_repr = repr_plain,
      str_of = str_of_scalar,
      num_is_zero = literal_is_zero,
      re_search_ignorecase = search_ignorecase,
      re_findall_dotall = findall_dotall,
      json_loads = loads,
      console_print = rich_print,
      console_print_panel = (\<lambda>content title. rich_print content),
      print_traceback = (\<lambda>e. rich_print (exn_message e)) \<rparr>"

section \<open>A small world for the examples\<close>

text \<open>
  A shell that knows four things, as \<open>sh -c\<close> does them: \<open>pwd\<close> prints the working
  directory, \<open>echo $NAME\<close> prints the value of \<open>NAME\<close> in the environment of the child
  (an empty line when it is not set), \<open>export NAME=VALUE\<close> prints nothing and succeeds,
  anything else is not found. The file system plays no part (\<open>unit\<close>).
\<close>

definition demo_subprocess ::
  "unit \<Rightarrow> env \<Rightarrow> string \<Rightarrow> string \<Rightarrow> int option \<Rightarrow> proc_result \<times> unit" where
  "demo_subprocess u e d shell_cmd timeout =
    (if shell_cmd = ''pwd'' then (Completed 0 (d @ [CHR 0x0A]) [], u)
     else if prefix ''echo $'' shell_cmd
     then (Completed 0
             ((case map_of e (drop 6 shell_cmd) of None \<Rightarrow> [] | Some v \<Rightarrow> v) @ [CHR 0x0A]) [],
           u)
     else if prefix ''export '' shell_cmd then (Completed 0 [] [], u)
     else (Completed 127 [] (''sh: 1: '' @ shell_cmd @ '': not found'' @ [CHR 0x0A]), u))"

definition demo_system ::
  "(nat \<Rightarrow> message list \<Rightarrow> llm_result) \<Rightarrow> (nat \<Rightarrow> user_answer) \<Rightarrow> unit system" where
  "demo_system llm answers =
    \<lparr> subprocess_run = demo_subprocess,
      persistent_execute = (\<lambda>ps u e d c t. ((False, [], ''no pseudo-terminal''), u, e, d)),
      isdir = (\<lambda>u d. True),
      chdir_succeeds = (\<lambda>u d. True),
      llm_generate = llm,
      confirm_answer = answers,
      ui_interact = (\<lambda>n m k a. UiResponse []) \<rparr>"

definition demo_world :: "unit world" where
  "demo_world =
    \<lparr> os = (), environ = [(''HOME'', ''/home/user'')], cwd = ''/home/user'', shell_log = [],
      confirm_log = [], llm_calls = 0, interactions = 0 \<rparr>"

definition demo_config :: config where
  "demo_config = \<lparr> SAFE_MODE = True, MAX_STEPS = 10, MAX_IDLE_STEPS = 2, VERBOSE = False \<rparr>"

definition unsafe_config :: config where
  "unsafe_config = \<lparr> SAFE_MODE = False, MAX_STEPS = 10, MAX_IDLE_STEPS = 2, VERBOSE = False \<rparr>"

definition demo_process :: process_info where
  "demo_process = \<lparr> env_SHELL = Some ''/bin/bash'', pid = ''4242'' \<rparr>"

definition demo_history :: "message list" where
  "demo_history = [\<lparr> role = ''system'', content = ''You are a shell agent.'' \<rparr>]"

text \<open>The reply \<open>{"command": "<c>"}\<close>.\<close>

definition command_reply :: "string \<Rightarrow> string" where
  "command_reply c =
    ''{'' @ [CHR 0x22] @ ''command'' @ [CHR 0x22] @ '': '' @ [CHR 0x22] @ c @ [CHR 0x22] @ ''}''"

text \<open>An agent in AUTO mode with three steps and the default idle budget of two.\<close>

definition demo_agent :: command_agent where
  "demo_agent = CommandAgent_init demo_config demo_process (Some 3) False True None"


text \<open>A model that gives the same reply every time, with a user who agrees to everything.\<close>

definition replying_system :: "string \<Rightarrow> unit system" where
  "replying_system reply = demo_system (\<lambda>n h. LLMText reply) (\<lambda>n. AnswerYes)"

text \<open>A model that answers \<open>{"command": "rm -rf /"}\<close> every time.\<close>

definition insisting_llm :: "nat \<Rightarrow> message list \<Rightarrow> llm_result" where
  "insisting_llm n h = LLMText (command_reply ''rm -rf /'')"

definition insisting_system :: "unit system" where
  "insisting_system = demo_system insisting_llm (\<lambda>n. AnswerYes)"

text \<open>A model whose call returns \<open>None\<close>, and one whose call raises.\<close>

definition silent_system :: "unit system" where
  "silent_system = demo_system (\<lambda>n h. LLMNone) (\<lambda>n. AnswerYes)"

definition failing_system :: "string \<Rightarrow> unit system" where
  "failing_system error_text =
    demo_system (\<lambda>n h. LLMRaise (Exn ''APIError'' error_text)) (\<lambda>n. AnswerYes)"

text \<open>A user who says no to everything, and one who always takes the preselected option.\<close>

definition refusing_system :: "unit system" where
  "refusing_system = demo_system insisting_llm (\<lambda>n. AnswerNo)"

definition defaulting_system :: "unit system" where
  "defaulting_system = demo_system insisting_llm (\<lambda>n. AnswerDefault)"

definition start_state :: "unit agent_state" where
  "start_state = \<lparr> history = demo_history, steps = [], idle_steps = 0, world = demo_world \<rparr>"

text \<open>
  Three long commands: \<open>rm -rf /\<close> followed by ten thousand letters; 10 001 letters;
  5 001 times the letter e with an acute accent (U+00E9, two bytes in UTF-8), which is
  10 002 bytes.
\<close>

definition long_dangerous_command :: string where
  "long_dangerous_command = ''rm -rf /'' @ replicate 10000 (CHR ''a'')"

definition long_plain_command :: string where
  "long_plain_command = replicate 10001 (CHR ''a'')"

definition long_accented_command :: string where
  "long_accented_command = concat (replicate 5001 [CHR 0xC3, CHR 0xA9])"

text \<open>
  The reply \<open>{"note": "a } b", oops} {"command": "ls"}\<close>: a balanced text with a brace
  inside a string that does not decode, then a command.
\<close>

definition malformed_then_command :: string where
  "malformed_then_command =
    ''{'' @ [CHR 0x22] @ ''note'' @ [CHR 0x22] @ '': '' @ [CHR 0x22] @ ''a } b'' @ [CHR 0x22] @
    '', oops} '' @ command_reply ''ls''"

text \<open>
  The reply \<open>{"command": "echo \"}\" {"} and so on\<close>: the command holds an escaped
  quote, a closing and an opening brace.
\<close>

definition command_with_braces :: string where
  "command_with_braces =
    ''echo '' @ [CHR 0x5C, CHR 0x22] @ ''}'' @ [CHR 0x5C, CHR 0x22] @ '' {''"

definition reply_with_braces :: string where
  "reply_with_braces = ''Run this: '' @ command_reply command_with_braces @ '' and so on''"

section \<open>Notions used in the statements\<close>

text \<open>
  A string handed to a shell is unobjectionable when it is \<open>pwd\<close>, or a command that the
  safety check does not call dangerous, or such a command followed by \<open>&& pwd\<close>.
\<close>

definition allowed :: "library \<Rightarrow> config \<Rightarrow> string \<Rightarrow> bool" where
  "allowed lib cfg c =
    (c = ''pwd'' \<or>
     (\<exists>cmd. \<not> is_dangerous_command lib cfg cmd \<and> (c = cmd \<or> c = cmd @ '' && pwd'')))"

text \<open>
  The last confirmation asked between two worlds was answered with no: explicitly, or by
  taking a default that is no.
\<close>

definition declined :: "'os system \<Rightarrow> 'os world \<Rightarrow> 'os world \<Rightarrow> bool" where
  "declined sys w w' =
    (length (confirm_log w) < length (confirm_log w') \<and>
     (case confirm_answer sys (length (confirm_log w') - 1) of
        AnswerYes \<Rightarrow> False
      | AnswerNo \<Rightarrow> True
      | AnswerDefault \<Rightarrow> \<not> snd (last (confirm_log w'))))"

text \<open>
  The balanced text in the words of the specification: "tracking brace depth while
  respecting string literals and backslash escapes; on balance-to-zero, attempt JSON
  parse of the substring". The state after a text is the brace depth, whether a string
  literal is open, and whether the last character was an escaping backslash. A
  character after such a backslash counts for nothing; a quote opens or closes a
  string literal; braces count outside string literals only.
\<close>

type_synonym scan_state = "int \<times> bool \<times> bool"

fun spec_scan_step :: "scan_state \<Rightarrow> char \<Rightarrow> scan_state" where
  "spec_scan_step (depth, in_string, escaped) c =
     (if escaped then (depth, in_string, False)
      else if c = CHR 0x5C then (depth, in_string, True)
      else if c = CHR 0x22 then (depth, \<not> in_string, False)
      else if in_string then (depth, in_string, False)
      else if c = CHR ''{'' then (depth + 1, in_string, False)
      else if c = CHR ''}'' then (depth - 1, in_string, False)
      else (depth, in_string, False))"

definition spec_state_after :: "string \<Rightarrow> scan_state" where
  "spec_state_after p = foldl spec_scan_step (0, False, False) p"

text \<open>
  A text is balanced when its last character is a closing brace that counts and
  brings the depth back to zero.
\<close>

definition spec_balanced :: "string \<Rightarrow> bool" where
  "spec_balanced p =
    (p \<noteq> [] \<and> last p = CHR ''}'' \<and> spec_state_after (butlast p) = (1, False, False))"

text \<open>
  The first balanced text of \<open>s\<close>: a balanced prefix none of whose shorter prefixes is
  balanced.
\<close>

definition spec_first_balanced :: "string \<Rightarrow> string \<Rightarrow> bool" where
  "spec_first_balanced s p =
    (prefix p s \<and> spec_balanced p \<and>
     list_all (\<lambda>n. \<not> spec_balanced (take n p)) [0..<length p])"

text \<open>
  Six replies, one with each keyword of \<open>_is_final_summary\<close> (the three Chinese ones
  say "the task is completed", "all finished" and "summary: all is well"), and the
  reply \<open>{"status": "failed", "summary": "not done"}\<close>.
\<close>

definition keyword_replies :: "string list" where
  "keyword_replies =
    [[CHR 0xE4, CHR 0xBB, CHR 0xBB, CHR 0xE5, CHR 0x8A, CHR 0xA1, CHR 0xE5, CHR 0xB7,
     CHR 0xB2, CHR 0xE5, CHR 0xAE, CHR 0x8C, CHR 0xE6, CHR 0x88, CHR 0x90],
     [CHR 0xE5, CHR 0x85, CHR 0xA8, CHR 0xE9, CHR 0x83, CHR 0xA8, CHR 0xE5, CHR 0xAE,
     CHR 0x8C, CHR 0xE7, CHR 0xBB, CHR 0x93],
     ''The job is FINISHED'',
     ''All Done.'',
     [CHR 0xE6, CHR 0x80, CHR 0xBB, CHR 0xE7, CHR 0xBB, CHR 0x93, CHR 0xEF, CHR 0xBC,
     CHR 0x9A, CHR 0xE4, CHR 0xB8, CHR 0x80, CHR 0xE5, CHR 0x88, CHR 0x87, CHR 0xE6,
     CHR 0xAD, CHR 0xA3, CHR 0xE5, CHR 0xB8, CHR 0xB8],
     ''Summary: ok'']"

definition failed_reply :: string where
  "failed_reply =
    ''{'' @ [CHR 0x22] @ ''status'' @ [CHR 0x22] @ '': '' @ [CHR 0x22] @ ''failed'' @ [CHR 0x22] @
    '', '' @ [CHR 0x22] @ ''summary'' @ [CHR 0x22] @ '': '' @ [CHR 0x22] @ ''not done'' @
    [CHR 0x22] @ ''}''"

section \<open>The safety check and the constructor: basic facts\<close>

lemma py_in_prefix: "prefix sub s \<Longrightarrow> py_in sub s"
  by (cases s) auto

lemma dangerous_literal:
  assumes "SAFE_MODE cfg" "d \<in> set DANGEROUS_COMMANDS"
    "py_in (str_lower lib d) (str_strip lib (str_lower lib command))"
  shows "is_dangerous_command lib cfg command"
  using assms unfolding is_dangerous_command_def Let_def list_ex_iff by auto

lemma is_dangerous_needs_safe_mode:
  "is_dangerous_command lib cfg command \<Longrightarrow> SAFE_MODE cfg"
  unfolding is_dangerous_command_def by (auto split: if_splits)

lemma agent_tool_safe_mode: "safe_mode (tool (CommandAgent_init cfg pinfo ms rcf am mi))"
  by (simp add: CommandAgent_init_def TerminalTool_default_def TerminalTool_init_def)

lemma execute_dangerous:
  "safe_mode tt \<Longrightarrow> is_dangerous_command lib cfg command \<Longrightarrow>
   execute lib sys cfg tt command timeout rc w =
     ((case print_error lib (refused_text @ command) of
         Some e \<Rightarrow> Inl e
       | None \<Rightarrow> Inr (False, [], ''Dangerous command blocked'')), w)"
  by (simp add: execute_def split: option.splits)

lemma validate_dangerous:
  "safe_mode tt \<Longrightarrow> is_dangerous_command lib cfg command \<Longrightarrow>
   validate_command lib cfg tt command = (False, msg_empty) \<or>
   validate_command lib cfg tt command = (False, msg_dangerous @ command)"
  by (simp add: validate_command_def)

section \<open>What the tool and the loop do to the world\<close>

lemma call_subprocess_frame:
  "call_subprocess sys c t w = (res, w1) \<Longrightarrow>
     environ w1 = environ w \<and> cwd w1 = cwd w \<and> shell_log w1 = shell_log w @ [c] \<and>
     confirm_log w1 = confirm_log w \<and> llm_calls w1 = llm_calls w \<and>
     interactions w1 = interactions w"
  by (auto simp: call_subprocess_def split: prod.splits)

lemma try_chdir_frame:
  "environ (try_chdir sys d w) = environ w \<and> shell_log (try_chdir sys d w) = shell_log w \<and>
   confirm_log (try_chdir sys d w) = confirm_log w \<and> llm_calls (try_chdir sys d w) = llm_calls w \<and>
   interactions (try_chdir sys d w) = interactions w"
  by (simp add: try_chdir_def)

lemma fallback_plain_frame:
  assumes "fallback_plain lib sys command timeout w = (res, w')"
  shows "environ w' = environ w \<and> confirm_log w' = confirm_log w \<and> llm_calls w' = llm_calls w \<and>
     interactions w' = interactions w \<and>
     (shell_log w' = shell_log w @ [command] \<or> shell_log w' = shell_log w @ [command, ''pwd''])"
proof -
  obtain r1 w1 where c1: "call_subprocess sys command timeout w = (r1, w1)" by force
  obtain r2 w2 where c2: "call_subprocess sys ''pwd'' (Some 1) w1 = (r2, w2)" by force
  note f1 = call_subprocess_frame[OF c1] and f2 = call_subprocess_frame[OF c2]
  show ?thesis
    using assms c1 c2 f1 f2
    by (auto simp: fallback_plain_def Let_def try_chdir_frame split: proc_result.splits if_splits)
qed

lemma fallback_directory_change_frame:
  assumes "fallback_directory_change lib sys command cl timeout w = (res, w')"
  shows "environ w' = environ w \<and> confirm_log w' = confirm_log w \<and> llm_calls w' = llm_calls w \<and>
     interactions w' = interactions w \<and> shell_log w' = shell_log w @ [command @ '' && pwd'']"
proof -
  obtain r1 w1 where c1: "call_subprocess sys (command @ '' && pwd'') timeout w = (r1, w1)" by force
  note f1 = call_subprocess_frame[OF c1]
  show ?thesis
    using assms c1 f1
    by (auto simp: fallback_directory_change_def Let_def try_chdir_frame split: proc_result.splits if_splits)
qed

lemma persistent_path_frame:
  assumes "persistent_path lib sys cfg ps command timeout w = (res, w')"
  shows "confirm_log w' = confirm_log w \<and> llm_calls w' = llm_calls w \<and>
     interactions w' = interactions w \<and> shell_log w' = shell_log w @ [command]"
  using assms
  by (auto simp: persistent_path_def Let_def split: prod.splits option.splits if_splits)

lemma run_shell_frame:
  assumes "run_shell lib sys cfg tt command timeout w = (res, w')"
  shows "confirm_log w' = confirm_log w \<and> llm_calls w' = llm_calls w \<and>
     interactions w' = interactions w \<and>
     (shell_log w' = shell_log w @ [command] \<or> shell_log w' = shell_log w @ [command, ''pwd'']
      \<or> shell_log w' = shell_log w @ [command @ '' && pwd''])"
proof (cases "if use_persistent_shell tt then the_persistent_shell tt else None")
  case (Some ps)
  with assms have "persistent_path lib sys cfg ps command timeout w = (res, w')"
    by (simp add: run_shell_def)
  from persistent_path_frame[OF this] show ?thesis by simp
next
  case None
  show ?thesis
  proof (cases "is_directory_change_cmd (str_lower lib (str_strip lib command))")
    case True
    with None assms have "fallback_directory_change lib sys command
        (str_lower lib (str_strip lib command)) timeout w = (res, w')"
      by (simp add: run_shell_def Let_def)
    from fallback_directory_change_frame[OF this] show ?thesis by simp
  next
    case False
    with None assms have "fallback_plain lib sys command timeout w = (res, w')"
      by (simp add: run_shell_def Let_def)
    from fallback_plain_frame[OF this] show ?thesis by blast
  qed
qed


lemma run_shell_grows_log:
  "run_shell lib sys cfg tt command timeout w = (res, w') \<Longrightarrow>
     shell_log w' \<noteq> shell_log w \<and> confirm_log w' = confirm_log w"
  by (drule run_shell_frame) auto

lemma ui_confirm_frame:
  "ui_confirm sys k d w = (b, w1) \<Longrightarrow>
     environ w1 = environ w \<and> shell_log w1 = shell_log w \<and> llm_calls w1 = llm_calls w \<and>
     interactions w1 = interactions w \<and> confirm_log w1 = confirm_log w @ [(k, d)] \<and>
     cwd w1 = cwd w \<and> os w1 = os w"
  by (auto simp: ui_confirm_def)

text \<open>
  The steps of \<open>execute\<close> after the two checks, one by one: the world after the sudo
  confirmation, after the high-risk confirmation and after the normal confirmation.
\<close>

lemma execute_cases:
  assumes "execute lib sys cfg tt command timeout rc w = (res, w')"
  obtains
    (blocked) "safe_mode tt" "is_dangerous_command lib cfg command" "w' = w"
      "res = (case print_error lib (refused_text @ command) of
                Some e \<Rightarrow> Inl e | None \<Rightarrow> Inr (False, [], ''Dangerous command blocked''))"
  | (invalid) "\<not> (safe_mode tt \<and> is_dangerous_command lib cfg command)"
      "\<not> fst (validate_command lib cfg tt command)" "w' = w"
      "res = (case print_error lib
                     (validation_failed_text @ snd (validate_command lib cfg tt command)) of
                Some e \<Rightarrow> Inl e
              | None \<Rightarrow> Inr (False, [], snd (validate_command lib cfg tt command)))"
  | (sudo_declined) "\<not> (safe_mode tt \<and> is_dangerous_command lib cfg command)"
      "fst (validate_command lib cfg tt command)"
      "py_startswith (str_strip lib (str_lower lib command)) ''sudo ''"
      "ui_confirm sys SudoConfirm False w = (False, w')"
      "res = Inr (False, [], ''User cancelled sudo command'')"
  | (risk_declined) w1 where "\<not> (safe_mode tt \<and> is_dangerous_command lib cfg command)"
      "fst (validate_command lib cfg tt command)"
      "(if py_startswith (str_strip lib (str_lower lib command)) ''sudo ''
        then ui_confirm sys SudoConfirm False w else (True, w)) = (True, w1)"
      "list_ex (\<lambda>keyword. py_in keyword (str_strip lib (str_lower lib command)))
         high_risk_keywords" "safe_mode tt"
      "ui_confirm sys HighRiskConfirm False w1 = (False, w')"
      "res = Inr (False, [], ''User cancelled high-risk command'')"
  | (print_raised) w1 e where "\<not> (safe_mode tt \<and> is_dangerous_command lib cfg command)"
      "fst (validate_command lib cfg tt command)"
      "(if py_startswith (str_strip lib (str_lower lib command)) ''sudo ''
        then ui_confirm sys SudoConfirm False w else (True, w)) = (True, w1)"
      "(if list_ex (\<lambda>keyword. py_in keyword (str_strip lib (str_lower lib command)))
            high_risk_keywords \<and> safe_mode tt
        then ui_confirm sys HighRiskConfirm False w1 else (True, w1)) = (True, w')"
      "print_command lib command ''pending'' = Some e" "res = Inl e"
  | (normal_declined) w1 w2 where "\<not> (safe_mode tt \<and> is_dangerous_command lib cfg command)"
      "fst (validate_command lib cfg tt command)"
      "\<not> py_startswith (str_strip lib (str_lower lib command)) ''sudo ''" "w1 = w"
      "\<not> list_ex (\<lambda>keyword. py_in keyword (str_strip lib (str_lower lib command)))
           high_risk_keywords" "w2 = w" "rc"
      "print_command lib command ''pending'' = None"
      "ui_confirm sys NormalConfirm True w = (False, w')"
      "res = Inr (False, [], ''User cancelled'')"
  | (shell) w1 w2 w3 where "\<not> (safe_mode tt \<and> is_dangerous_command lib cfg command)"
      "fst (validate_command lib cfg tt command)"
      "(if py_startswith (str_strip lib (str_lower lib command)) ''sudo ''
        then ui_confirm sys SudoConfirm False w else (True, w)) = (True, w1)"
      "(if list_ex (\<lambda>keyword. py_in keyword (str_strip lib (str_lower lib command)))
            high_risk_keywords \<and> safe_mode tt
        then ui_confirm sys HighRiskConfirm False w1 else (True, w1)) = (True, w2)"
      "print_command lib command ''pending'' = None"
      "(if rc \<and> \<not> py_startswith (str_strip lib (str_lower lib command)) ''sudo '' \<and>
           \<not> list_ex (\<lambda>keyword. py_in keyword (str_strip lib (str_lower lib command)))
               high_risk_keywords
        then ui_confirm sys NormalConfirm True w2 else (True, w2)) = (True, w3)"
      "run_shell lib sys cfg tt command timeout w3 = (res, w')"
proof (cases "safe_mode tt \<and> is_dangerous_command lib cfg command")
  case True
  with assms show ?thesis by (intro blocked) (auto simp: execute_def split: option.splits)
next
  case nd: False
  show ?thesis
  proof (cases "fst (validate_command lib cfg tt command)")
    case False
    with nd assms show ?thesis by (intro invalid) (auto simp: execute_def split: option.splits)
  next
    case valid: True
    let ?cl = "str_strip lib (str_lower lib command)"
    let ?sudo = "py_startswith ?cl ''sudo ''"
    let ?risk = "list_ex (\<lambda>keyword. py_in keyword ?cl) high_risk_keywords"
    obtain ok1 w1 where s1: "(if ?sudo then ui_confirm sys SudoConfirm False w else (True, w))
        = (ok1, w1)" by (metis surj_pair)
    obtain ok2 w2 where s2: "(if ?risk \<and> safe_mode tt
        then ui_confirm sys HighRiskConfirm False w1 else (True, w1)) = (ok2, w2)"
      by (metis surj_pair)
    obtain ok3 w3 where s3: "(if rc \<and> \<not> ?sudo \<and> \<not> ?risk
        then ui_confirm sys NormalConfirm True w2 else (True, w2)) = (ok3, w3)"
      by (metis surj_pair)
    note ex = assms[unfolded execute_def]
    show ?thesis
    proof (cases ok1)
      case False
      with ex s1 nd valid have "res = Inr (False, [], ''User cancelled sudo command'')" "w' = w1"
        by (simp_all add: Let_def)
      with False s1 nd valid show ?thesis
        by (intro sudo_declined) (auto split: if_splits)
    next
      case o1: True
      show ?thesis
      proof (cases ok2)
        case False
        with ex o1 s1 s2 nd valid
        have "res = Inr (False, [], ''User cancelled high-risk command'')" "w' = w2"
          by (simp_all add: Let_def)
        with False o1 s1 s2 nd valid show ?thesis
          by (intro risk_declined[of w1]) (auto split: if_splits)
      next
        case o2: True
        show ?thesis
        proof (cases "print_command lib command ''pending''")
          case (Some e)
          with ex o1 o2 s1 s2 nd valid have "res = Inl e" "w' = w2"
            by (simp_all add: Let_def)
          with Some o1 o2 s1 s2 nd valid show ?thesis
            by (intro print_raised[of w1 e]) auto
        next
          case None
          show ?thesis
          proof (cases ok3)
            case False
            with ex o1 o2 None s1 s2 s3 nd valid
            have "res = Inr (False, [], ''User cancelled'')" "w' = w3"
              by (simp_all add: Let_def)
            with False o1 o2 None s1 s2 s3 nd valid show ?thesis
              by (intro normal_declined[of w w]) (auto split: if_splits)
          next
            case True
            with ex o1 o2 None s1 s2 s3 nd valid
            have "run_shell lib sys cfg tt command timeout w3 = (res, w')"
              by (simp add: Let_def)
            with True o1 o2 None s1 s2 s3 nd valid show ?thesis
              by (intro shell[of w1 w2 w3]) auto
          qed
        qed
      qed
    qed
  qed
qed

lemma maybe_confirm_frame:
  "(if c then ui_confirm sys k d w else (True, w)) = (b, w1) \<Longrightarrow>
     environ w1 = environ w \<and> shell_log w1 = shell_log w \<and> llm_calls w1 = llm_calls w \<and>
     interactions w1 = interactions w \<and> prefix (confirm_log w) (confirm_log w1)"
  by (auto simp: ui_confirm_def split: if_splits)

lemma execute_log:
  assumes "execute lib sys cfg tt command timeout rc w = (res, w')"
  shows "llm_calls w' = llm_calls w \<and> interactions w' = interactions w \<and>
    (shell_log w' = shell_log w \<or>
     (\<not> (safe_mode tt \<and> is_dangerous_command lib cfg command) \<and>
      fst (validate_command lib cfg tt command) \<and>
      (shell_log w' = shell_log w @ [command] \<or> shell_log w' = shell_log w @ [command, ''pwd'']
       \<or> shell_log w' = shell_log w @ [command @ '' && pwd''])))"
  using assms
proof (cases rule: execute_cases)
  case (shell w1 w2 w3)
  from maybe_confirm_frame[OF shell(3)] maybe_confirm_frame[OF shell(4)]
    maybe_confirm_frame[OF shell(6)] run_shell_frame[OF shell(7)] shell(1,2)
  show ?thesis by auto
qed (auto dest!: ui_confirm_frame maybe_confirm_frame)


lemma idle_step_frame:
  "idle_step ag st res = (f, st') \<Longrightarrow>
     world st' = world st \<and> history st' = history st \<and> steps st' = steps st \<and>
     idle_steps st' = idle_steps st + 1 \<and>
     (f = Continue \<and> idle_steps st + 1 < max_idle_steps ag \<or>
      f = Return (res st') \<and> max_idle_steps ag \<le> idle_steps st + 1)"
  by (auto simp: idle_step_def Let_def split: if_splits)

lemma add_to_history_frame:
  "world (add_to_history r c st) = world st \<and> steps (add_to_history r c st) = steps st \<and>
   idle_steps (add_to_history r c st) = idle_steps st \<and>
   history (add_to_history r c st) = history st @ [\<lparr>role = r, content = c\<rparr>]"
  by (simp add: add_to_history_def)

lemma handle_exception_frame:
  "handle_exception lib cfg e st = (f, st') \<Longrightarrow>
     st' = st \<and> ((\<exists>e2. f = Raise e2) \<or> f = Return (failed_with_error (exn_message e) st))"
  by (auto simp: handle_exception_def split: option.splits if_splits)

lemma command_branch_rejected:
  assumes "\<not> fst (validate_command lib cfg (tool ag) command)"
  shows "command_branch lib sys cfg ag n (JStr command) st =
     (case print_error lib
             (validation_failed_text @ snd (validate_command lib cfg (tool ag) command)) of
        Some e \<Rightarrow> handle_exception lib cfg e st
      | None \<Rightarrow>
          idle_step ag
            (add_to_history ''user''
               (obs_invalid @ snd (validate_command lib cfg (tool ag) command)) st)
            (failed_with_summary summary_invalid_commands))"
proof (cases "command = []")
  case True
  then show ?thesis
    by (simp add: command_branch_def validate_command_def split: option.splits)
next
  case False
  with assms show ?thesis
    by (cases "validate_command lib cfg (tool ag) command")
       (auto simp: command_branch_def split: option.splits)
qed

lemma command_branch_valid:
  assumes "fst (validate_command lib cfg (tool ag) command)"
  shows "command_branch lib sys cfg ag n (JStr command) st =
     (case execute lib sys cfg (tool ag) command (Some 30)
             (require_confirm ag \<and> \<not> auto_mode ag) (world st) of
        (Inl e, w') \<Rightarrow> handle_exception lib cfg e (st\<lparr>idle_steps := 0, world := w'\<rparr>)
      | (Inr (success, stdout, stderr), w') \<Rightarrow>
          (Continue,
           add_to_history ''user''
             (AGENT_OBSERVATION_TEMPLATE command success (if success then stdout else stderr)
                (if \<not> success then stderr else []))
             (st\<lparr>idle_steps := 0, world := w',
                 steps := steps st @ [\<lparr> s_step = n, s_command = command, s_success = success,
                                          s_stdout = stdout, s_stderr = stderr \<rparr>]\<rparr>)))"
proof -
  from assms have ne: "command \<noteq> []" by (auto simp: validate_command_def)
  from assms ne show ?thesis
    by (cases "validate_command lib cfg (tool ag) command")
       (auto simp: command_branch_def Let_def split: prod.splits sum.splits)
qed

text \<open>
  What the command branch does to the world: nothing on a value that is no command or
  that validation rejects, and what \<open>execute\<close> does otherwise.
\<close>

lemma command_branch_world:
  assumes "command_branch lib sys cfg ag n cmd st = (f, st')"
  shows "world st' = world st \<or>
     (\<exists>command. cmd = JStr command \<and> fst (validate_command lib cfg (tool ag) command) \<and>
        world st' = snd (execute lib sys cfg (tool ag) command (Some 30)
                           (require_confirm ag \<and> \<not> auto_mode ag) (world st)))"
proof (cases "py_truthy lib cmd")
  case False
  with assms show ?thesis
    by (auto simp: command_branch_def add_to_history_frame split: option.splits
        dest!: idle_step_frame handle_exception_frame)
next
  case True
  show ?thesis
  proof (cases cmd)
    case (JStr command)
    show ?thesis
    proof (cases "fst (validate_command lib cfg (tool ag) command)")
      case False
      with assms JStr show ?thesis
        by (auto simp: command_branch_rejected add_to_history_frame split: option.splits
            dest!: idle_step_frame handle_exception_frame)
    next
      case valid: True
      obtain res w' where ex: "execute lib sys cfg (tool ag) command (Some 30)
          (require_confirm ag \<and> \<not> auto_mode ag) (world st) = (res, w')" by (metis surj_pair)
      from assms JStr valid ex have "world st' = w'"
        by (auto simp: command_branch_valid add_to_history_frame split: sum.splits prod.splits
            dest!: handle_exception_frame)
      with JStr valid ex show ?thesis by simp
    qed
  qed (use assms True in \<open>auto simp: command_branch_def dest!: handle_exception_frame\<close>)
qed

lemma command_branch_log:
  assumes "command_branch lib sys cfg ag n cmd st = (f, st')" "safe_mode (tool ag)"
  shows "llm_calls (world st') = llm_calls (world st) \<and>
     (\<exists>new. shell_log (world st') = shell_log (world st) @ new \<and>
            (\<forall>c\<in>set new. allowed lib cfg c))"
proof -
  from command_branch_world[OF assms(1)] show ?thesis
  proof
    assume "world st' = world st"
    then show ?thesis by simp
  next
    assume "\<exists>command. cmd = JStr command \<and> fst (validate_command lib cfg (tool ag) command) \<and>
        world st' = snd (execute lib sys cfg (tool ag) command (Some 30)
                           (require_confirm ag \<and> \<not> auto_mode ag) (world st))"
    then obtain command where w: "world st' = snd (execute lib sys cfg (tool ag) command (Some 30)
                           (require_confirm ag \<and> \<not> auto_mode ag) (world st))" by blast
    have "execute lib sys cfg (tool ag) command (Some 30)
        (require_confirm ag \<and> \<not> auto_mode ag) (world st) =
      (fst (execute lib sys cfg (tool ag) command (Some 30)
        (require_confirm ag \<and> \<not> auto_mode ag) (world st)), world st')"
      using w by simp
    from execute_log[OF this] assms(2) show ?thesis
      by (auto simp: allowed_def)
  qed
qed

lemma interaction_branch_frame:
  "interaction_branch lib sys cfg ag response ci st = (f, st') \<Longrightarrow>
     llm_calls (world st') = llm_calls (world st) \<and> shell_log (world st') = shell_log (world st) \<and>
     steps st' = steps st"
  by (auto simp: interaction_branch_def Let_def add_to_history_frame
      split: if_splits ui_outcome.splits dest!: handle_exception_frame)

lemma dispatch_log:
  assumes "dispatch lib sys cfg ag n response ci st = (f, st')" "safe_mode (tool ag)"
  shows "llm_calls (world st') = llm_calls (world st) \<and>
     (\<exists>new. shell_log (world st') = shell_log (world st) @ new \<and>
            (\<forall>c\<in>set new. allowed lib cfg c))"
  using assms
  by (auto simp: dispatch_def Let_def split: if_splits option.splits
      dest!: interaction_branch_frame handle_exception_frame dest: command_branch_log)

lemma iteration_log:
  assumes "iteration lib sys cfg ag n st = (f, st')" "safe_mode (tool ag)"
  shows "llm_calls (world st') = Suc (llm_calls (world st)) \<and>
     (\<exists>new. shell_log (world st') = shell_log (world st) @ new \<and>
            (\<forall>c\<in>set new. allowed lib cfg c))"
  using assms
  by (auto simp: iteration_def Let_def add_to_history_frame
      split: llm_result.splits if_splits option.splits sum.splits
      dest!: idle_step_frame dispatch_log handle_exception_frame)

lemma run_loop_log:
  "run_loop lib sys cfg ag k st = (r, n, st') \<Longrightarrow> safe_mode (tool ag) \<Longrightarrow>
     (\<exists>new. shell_log (world st') = shell_log (world st) @ new \<and>
            (\<forall>c\<in>set new. allowed lib cfg c))"
proof (induction lib sys cfg ag k st rule: run_loop.induct)
  case (1 lib sys cfg ag k st)
  show ?case
  proof (cases "k < max_steps ag")
    case False
    with "1.prems" show ?thesis by (simp add: run_loop.simps)
  next
    case True
    obtain f st1 where it: "iteration lib sys cfg ag (k + 1) st = (f, st1)" by (metis surj_pair)
    from iteration_log[OF it "1.prems"(2)] obtain new1 where
      n1: "shell_log (world st1) = shell_log (world st) @ new1" "\<forall>c\<in>set new1. allowed lib cfg c"
      by blast
    show ?thesis
    proof (cases f)
      case (Return x)
      with True it "1.prems" have "st' = st1" by (simp add: run_loop.simps)
      with n1 show ?thesis by blast
    next
      case (Raise e)
      with True it "1.prems" have "st' = st1" by (simp add: run_loop.simps)
      with n1 show ?thesis by blast
    next
      case Continue
      with True it "1.prems" have "run_loop lib sys cfg ag (k + 1) st1 = (r, n, st')"
        by (simp add: run_loop.simps)
      from "1.IH"[OF True it[symmetric] Continue this "1.prems"(2)] obtain new2 where
        "shell_log (world st') = shell_log (world st1) @ new2" "\<forall>c\<in>set new2. allowed lib cfg c"
        by blast
      with n1 have "shell_log (world st') = shell_log (world st) @ (new1 @ new2)"
        "\<forall>c\<in>set (new1 @ new2). allowed lib cfg c" by auto
      then show ?thesis by blast
    qed
  qed
qed

lemma run_log:
  assumes "safe_mode (tool ag)"
  shows "\<exists>new. shell_log (world (snd (snd (run lib sys cfg ag task ce hist w)))) = shell_log w @ new \<and>
           (\<forall>c\<in>set new. allowed lib cfg c)"
proof -
  let ?start = "\<lparr> history = hist, steps = [], idle_steps = 0, world = w \<rparr>"
  have a: "\<exists>new. shell_log (world (snd (snd (run_loop lib sys cfg ag 0 st0)))) = shell_log w @ new \<and>
           (\<forall>c\<in>set new. allowed lib cfg c)" if "world st0 = w" for st0
  proof -
    have "run_loop lib sys cfg ag 0 st0 = (fst (run_loop lib sys cfg ag 0 st0),
        fst (snd (run_loop lib sys cfg ag 0 st0)), snd (snd (run_loop lib sys cfg ag 0 st0)))" by simp
    from run_loop_log[OF this assms] that show ?thesis by simp
  qed
  show ?thesis
    unfolding run_def Let_def
    using a[of ?start] a[of "add_to_history ''user'' (AGENT_USER_TEMPLATE (the task)) ?start"]
    by (auto simp: add_to_history_frame)
qed

section \<open>The constructor's safe-mode argument\<close>

lemma high_risk_confirmed:
  assumes "execute lib sys cfg tt command timeout rc w = (res, w')"
    and "safe_mode tt"
    and "list_ex (\<lambda>keyword. py_in keyword (str_strip lib (str_lower lib command)))
           high_risk_keywords"
    and "shell_log w' \<noteq> shell_log w"
  shows "(HighRiskConfirm, False) \<in> set (drop (length (confirm_log w)) (confirm_log w')) \<and>
         confirm_answer sys (length (confirm_log w') - 1) = AnswerYes"
  using assms(1)
proof (cases rule: execute_cases)
  case (shell w1 w2 w3)
  from shell(4) assms(2,3) have c2: "ui_confirm sys HighRiskConfirm False w1 = (True, w2)"
    by simp
  from shell(6) assms(3) have "w3 = w2" by simp
  with run_shell_frame[OF shell(7)] have l: "confirm_log w' = confirm_log w2" by simp
  from c2 have a: "confirm_log w2 = confirm_log w1 @ [(HighRiskConfirm, False)]"
    "confirm_answer sys (length (confirm_log w1)) = AnswerYes"
    by (auto simp: ui_confirm_def split: user_answer.splits)
  from maybe_confirm_frame[OF shell(3)] obtain extra where
    "confirm_log w1 = confirm_log w @ extra" by (auto simp: prefix_def)
  with a l show ?thesis by simp
qed (use assms(4) in \<open>auto dest!: ui_confirm_frame maybe_confirm_frame\<close>)

lemma injection_rejected:
  assumes "safe_mode tt"
    and "list_ex (\<lambda>combo.
           py_in (fst combo) command \<and> py_in (snd combo) (str_lower lib command) \<and>
           list_ex (\<lambda>part. py_startswith (str_lower lib (str_strip lib part)) (snd combo))
             (tl (py_split command (fst combo))))
         dangerous_chars_combinations"
  shows "\<not> fst (validate_command lib cfg tt command)"
  using assms by (auto simp: validate_command_def list_ex_iff)

text \<open>
  Claim C10. \<open>TerminalTool.__init__\<close> computes \<open>safe_mode or Config.SAFE_MODE\<close> and keeps
  \<open>use_persistent_shell\<close> as given, so safe mode is off only when the argument and the
  global configuration are both false. When \<open>Config.SAFE_MODE\<close> is true,
  \<open>TerminalTool(safe_mode=False)\<close> is the very tool \<open>TerminalTool(safe_mode=True)\<close>
  gives, and on it, whatever the libraries, the shell and the user do:
  \<^item> \<open>execute\<close> hands a dangerous command to no shell and asks nothing: the world stays
    as it is, and the result is \<open>(False, "", "Dangerous command blocked")\<close>, unless
    printing the refusal raises;
  \<^item> a command with a high-risk keyword reaches a shell only after the high-risk
    confirmation, asked with default no, was answered with an explicit yes;
  \<^item> \<open>validate_command\<close> rejects a command in which a separator is followed by a part
    that begins with \<open>rm\<close> (the injection check).
\<close>

theorem safe_mode_argument_cannot_disable:
  "safe_mode (TerminalTool_init cfg sh p a ups) = (a \<or> SAFE_MODE cfg) \<and>
   use_persistent_shell (TerminalTool_init cfg sh p a ups) = ups \<and>
   (\<not> safe_mode (TerminalTool_init cfg sh p a ups) \<longrightarrow> \<not> SAFE_MODE cfg) \<and>
   (SAFE_MODE cfg \<longrightarrow>
      TerminalTool_init cfg sh p False ups = TerminalTool_init cfg sh p True ups \<and>
      (is_dangerous_command lib cfg command \<longrightarrow>
         execute lib sys cfg (TerminalTool_init cfg sh p False ups) command timeout rc w =
           ((case print_error lib (refused_text @ command) of
               Some e \<Rightarrow> Inl e
             | None \<Rightarrow> Inr (False, [], ''Dangerous command blocked'')), w)) \<and>
      (list_ex (\<lambda>keyword. py_in keyword (str_strip lib (str_lower lib command)))
         high_risk_keywords \<and>
       shell_log (snd (execute lib sys cfg (TerminalTool_init cfg sh p False ups) command
                         timeout rc w)) \<noteq> shell_log w \<longrightarrow>
         (HighRiskConfirm, False) \<in>
           set (drop (length (confirm_log w))
                  (confirm_log (snd (execute lib sys cfg (TerminalTool_init cfg sh p False ups)
                                       command timeout rc w)))) \<and>
         confirm_answer sys
           (length (confirm_log (snd (execute lib sys cfg (TerminalTool_init cfg sh p False ups)
                                        command timeout rc w))) - 1) = AnswerYes) \<and>
      (list_ex (\<lambda>combo.
           py_in (fst combo) command \<and> py_in (snd combo) (str_lower lib command) \<and>
           list_ex (\<lambda>part. py_startswith (str_lower lib (str_strip lib part)) (snd combo))
             (tl (py_split command (fst combo))))
         dangerous_chars_combinations \<longrightarrow>
         \<not> fst (validate_command lib cfg (TerminalTool_init cfg sh p False ups) command)))"
proof -
  let ?tt = "TerminalTool_init cfg sh p False ups"
  have s: "safe_mode (TerminalTool_init cfg sh p a ups) = (a \<or> SAFE_MODE cfg)" for a
    by (simp add: TerminalTool_init_def)
  have e: "execute lib sys cfg ?tt command timeout rc w =
      (fst (execute lib sys cfg ?tt command timeout rc w),
       snd (execute lib sys cfg ?tt command timeout rc w))" by simp
  have "TerminalTool_init cfg sh p False ups = TerminalTool_init cfg sh p True ups"
    if "SAFE_MODE cfg" using that by (simp add: TerminalTool_init_def)
  moreover have "use_persistent_shell (TerminalTool_init cfg sh p a ups) = ups"
    by (simp add: TerminalTool_init_def)
  ultimately show ?thesis
    using s execute_dangerous[of ?tt lib cfg command sys timeout rc w]
      high_risk_confirmed[OF e] injection_rejected[of ?tt command lib cfg]
    by blast
qed

theorem safe_mode_argument_cannot_disable_witness:
  "SAFE_MODE demo_config \<and>
   safe_mode (TerminalTool_init demo_config None ''1'' False False) \<and>
   \<not> safe_mode (TerminalTool_init unsafe_config None ''1'' False False) \<and>
   is_dangerous_command reference_library demo_config ''rm -rf /'' \<and>
   execute reference_library insisting_system demo_config
     (TerminalTool_init demo_config None ''1'' False False) ''rm -rf /'' (Some 30) False
     demo_world = (Inr (False, [], ''Dangerous command blocked''), demo_world) \<and>
   shell_log (snd (execute reference_library insisting_system demo_config
                     (TerminalTool_init demo_config None ''1'' False False) ''rm -rf build''
                     (Some 30) False demo_world)) = [''rm -rf build'', ''pwd''] \<and>
   (HighRiskConfirm, False) \<in>
     set (drop (length (confirm_log demo_world))
            (confirm_log (snd (execute reference_library insisting_system demo_config
                                 (TerminalTool_init demo_config None ''1'' False False)
                                 ''rm -rf build'' (Some 30) False demo_world)))) \<and>
   \<not> fst (validate_command reference_library demo_config
            (TerminalTool_init demo_config None ''1'' False False) ''ls; rm notes.txt'')"
proof -
  note t = safe_mode_argument_cannot_disable[where sh = None and p = "''1''"
      and ups = False and lib = reference_library and sys = insisting_system
      and timeout = "Some 30" and rc = False and w = demo_world]
  have s: "SAFE_MODE demo_config" by (simp add: demo_config_def)
  have u: "\<not> SAFE_MODE unsafe_config" by (simp add: unsafe_config_def)
  have d: "is_dangerous_command reference_library demo_config ''rm -rf /''" by code_simp
  have p: "print_error reference_library (refused_text @ ''rm -rf /'') = None" by code_simp
  have h: "list_ex (\<lambda>keyword. py_in keyword
               (str_strip reference_library (str_lower reference_library ''rm -rf build'')))
             high_risk_keywords" by code_simp
  have l: "shell_log (snd (execute reference_library insisting_system demo_config
                     (TerminalTool_init demo_config None ''1'' False False) ''rm -rf build''
                     (Some 30) False demo_world)) = [''rm -rf build'', ''pwd'']" by code_simp
  have e: "shell_log demo_world = []" by (simp add: demo_world_def)
  have i: "list_ex (\<lambda>combo.
           py_in (fst combo) ''ls; rm notes.txt'' \<and>
           py_in (snd combo) (str_lower reference_library ''ls; rm notes.txt'') \<and>
           list_ex (\<lambda>part. py_startswith
                      (str_lower reference_library (str_strip reference_library part))
                      (snd combo))
             (tl (py_split ''ls; rm notes.txt'' (fst combo))))
         dangerous_chars_combinations" by code_simp
  from t[where cfg = demo_config and a = False and command = "''rm -rf /''"] s d
  have 1: "safe_mode (TerminalTool_init demo_config None ''1'' False False)"
    and x: "execute reference_library insisting_system demo_config
     (TerminalTool_init demo_config None ''1'' False False) ''rm -rf /'' (Some 30) False
     demo_world =
     ((case print_error reference_library (refused_text @ ''rm -rf /'') of
         Some e \<Rightarrow> Inl e
       | None \<Rightarrow> Inr (False, [], ''Dangerous command blocked'')), demo_world)"
    by blast+
  from x have b1: "execute reference_library insisting_system demo_config
     (TerminalTool_init demo_config None ''1'' False False) ''rm -rf /'' (Some 30) False
     demo_world = (Inr (False, [], ''Dangerous command blocked''), demo_world)"
    by (simp only: p option.simps)
  from t[where cfg = unsafe_config and a = False and command = "''rm -rf /''"] u
  have 2: "\<not> safe_mode (TerminalTool_init unsafe_config None ''1'' False False)" by blast
  have ne: "shell_log (snd (execute reference_library insisting_system demo_config
                     (TerminalTool_init demo_config None ''1'' False False) ''rm -rf build''
                     (Some 30) False demo_world)) \<noteq> shell_log demo_world"
    unfolding l e by simp
  from t[where cfg = demo_config and a = False and command = "''rm -rf build''"] s h ne
  have 3: "(HighRiskConfirm, False) \<in>
     set (drop (length (confirm_log demo_world))
            (confirm_log (snd (execute reference_library insisting_system demo_config
                                 (TerminalTool_init demo_config None ''1'' False False)
                                 ''rm -rf build'' (Some 30) False demo_world))))"
    by blast
  from t[where cfg = demo_config and a = False and command = "''ls; rm notes.txt''"] s i
  have 4: "\<not> fst (validate_command reference_library demo_config
            (TerminalTool_init demo_config None ''1'' False False) ''ls; rm notes.txt'')"
    by blast
  from s d 1 b1 2 3 4 l show ?thesis by blast
qed

section \<open>Dangerous commands\<close>

text \<open>
  What holds for every library: under safe mode a command that
  \<open>Config.is_dangerous_command\<close> calls dangerous is never handed to a shell.
  \<open>TerminalTool.execute\<close> leaves the world as it was, and returns
  \<open>(False, "", "Dangerous command blocked")\<close> unless printing the refusal raises;
  \<open>validate_command\<close> rejects the command, and the command branch of \<open>run\<close> then touches
  neither the world nor the steps. Over a whole run, every string that reaches a shell
  is \<open>pwd\<close>, or a command that is not dangerous, or such a command followed by
  \<open>&& pwd\<close>. The tool of an agent always has safe mode on (\<open>agent_tool_safe_mode\<close>).
\<close>

lemma dangerous_command_never_reaches_shell:
  assumes "safe_mode (tool ag)"
  shows "(is_dangerous_command lib cfg command \<longrightarrow>
            snd (execute lib sys cfg (tool ag) command timeout rc w) = w \<and>
            fst (execute lib sys cfg (tool ag) command timeout rc w) =
              (case print_error lib (refused_text @ command) of
                 Some e \<Rightarrow> Inl e
               | None \<Rightarrow> Inr (False, [], ''Dangerous command blocked'')) \<and>
            \<not> fst (validate_command lib cfg (tool ag) command) \<and>
            world (snd (command_branch lib sys cfg ag n (JStr command) st)) = world st \<and>
            steps (snd (command_branch lib sys cfg ag n (JStr command) st)) = steps st) \<and>
         (\<exists>new. shell_log (world (snd (snd (run lib sys cfg ag task ce hist w)))) =
                  shell_log w @ new \<and>
            (\<forall>c\<in>set new. c = ''pwd'' \<or>
               (\<exists>cmd. \<not> is_dangerous_command lib cfg cmd \<and>
                      (c = cmd \<or> c = cmd @ '' && pwd''))))"
proof -
  have "world (snd (command_branch lib sys cfg ag n (JStr command) st)) = world st \<and>
        steps (snd (command_branch lib sys cfg ag n (JStr command) st)) = steps st \<and>
        \<not> fst (validate_command lib cfg (tool ag) command)"
    if d: "is_dangerous_command lib cfg command"
  proof -
    from validate_dangerous[OF assms d]
    have rej: "\<not> fst (validate_command lib cfg (tool ag) command)" by auto
    obtain f st' where c: "command_branch lib sys cfg ag n (JStr command) st = (f, st')"
      by (metis surj_pair)
    from c rej have "world st' = world st \<and> steps st' = steps st"
      by (auto simp: command_branch_rejected add_to_history_frame split: option.splits
          dest!: idle_step_frame handle_exception_frame)
    with c rej show ?thesis by simp
  qed
  with assms run_log[OF assms, of lib sys cfg task ce hist w] show ?thesis
    by (auto simp: execute_dangerous allowed_def)
qed


section \<open>The idle budget\<close>

text \<open>
  Claim C2 does not hold of the code. Every reply that parses sets \<open>idle_steps\<close> back to
  zero before the command is validated, so a rejected command leaves it at one, whatever
  it was before. With the default \<open>max_idle_steps = 2\<close>, a model that answers
  \<open>{"command": "rm -rf /"}\<close> every time has each command rejected, and the run goes
  through all three steps of its budget: three unproductive iterations in a row, ended
  by "Max steps reached" and not by the idle budget.
\<close>

theorem rejected_commands_outrun_idle_budget:
  "max_idle_steps demo_agent = 2 \<and>
   parse_response reference_library (command_reply ''rm -rf /'') =
     Inr (Some [(''command'', JStr ''rm -rf /'')]) \<and>
   \<not> fst (validate_command reference_library demo_config (tool demo_agent) ''rm -rf /'') \<and>
   fst (run reference_library insisting_system demo_config demo_agent (Some ''wipe root'') False
          demo_history demo_world) =
     Returned \<lparr> r_success = False, r_steps = Some [], r_summary = None,
                r_error = Some ''Max steps reached'' \<rparr> \<and>
   fst (snd (run reference_library insisting_system demo_config demo_agent (Some ''wipe root'')
               False demo_history demo_world)) = 3 \<and>
   llm_calls (world (snd (snd (run reference_library insisting_system demo_config demo_agent
                                 (Some ''wipe root'') False demo_history demo_world)))) = 3 \<and>
   idle_steps (snd (snd (run reference_library insisting_system demo_config demo_agent
                           (Some ''wipe root'') False demo_history demo_world))) = 1"
  by code_simp

section \<open>The environment between two calls\<close>



section \<open>The step budget\<close>






section \<open>The keyword fallback\<close>

lemma command_branch_history:
  assumes "command_branch lib sys cfg ag n cmd st = (f, st')"
  shows "prefix (history st) (history st') \<and> (\<forall>res. f = Return res \<longrightarrow> \<not> r_success res)"
proof (cases "py_truthy lib cmd")
  case False
  with assms show ?thesis
    by (auto simp: command_branch_def failed_with_summary_def failed_with_error_def
        add_to_history_frame split: option.splits
        dest!: idle_step_frame handle_exception_frame)
next
  case True
  show ?thesis
  proof (cases cmd)
    case (JStr command)
    show ?thesis
    proof (cases "fst (validate_command lib cfg (tool ag) command)")
      case False
      with assms JStr show ?thesis
        by (auto simp: command_branch_rejected failed_with_summary_def failed_with_error_def
            add_to_history_frame split: option.splits
            dest!: idle_step_frame handle_exception_frame)
    next
      case valid: True
      with assms JStr show ?thesis
        by (auto simp: command_branch_valid add_to_history_frame failed_with_error_def
            split: sum.splits prod.splits dest!: handle_exception_frame)
    qed
  qed (use assms True in \<open>auto simp: command_branch_def failed_with_error_def
         dest!: handle_exception_frame\<close>)
qed

lemma interaction_branch_history:
  "interaction_branch lib sys cfg ag response ci st = (f, st') \<Longrightarrow>
     prefix (history st) (history st') \<and> (\<forall>res. f = Return res \<longrightarrow> \<not> r_success res)"
  by (auto simp: interaction_branch_def Let_def add_to_history_frame
      failed_with_error_def failed_with_summary_def
      split: if_splits ui_outcome.splits dest!: handle_exception_frame)

lemma dispatch_history:
  assumes "dispatch lib sys cfg ag n response ci st = (f, st')"
  shows "prefix (history st) (history st') \<and>
     (\<forall>res. f = Return res \<and> r_success res \<longrightarrow> dict_get ci ''status'' JNull = JStr ''success'')"
  using assms
  by (auto simp: dispatch_def Let_def failed_with_error_def split: if_splits option.splits
      dest!: interaction_branch_history command_branch_history handle_exception_frame)

text \<open>
  What holds for every library, for a reply that is not empty. When the parser
  extracts nothing and the reply is printed without an exception: if the lower-cased
  reply contains one of the six keywords, the run returns \<open>success=True\<close> with the
  reply as summary; if it contains none, the iteration is idle. A reply that parses is
  never upgraded: from it the run returns success only when the parsed object has
  \<open>status\<close> equal to \<open>success\<close>.
\<close>

lemma keyword_upgrade_only_when_unparseable:
  assumes "llm_generate sys (llm_calls (world st)) (history st) = LLMText response"
    and "str_strip lib response \<noteq> []"
    and "iteration lib sys cfg ag n st = (f, st')"
  shows "(parse_response lib response = Inr None \<and> print_assistant lib response = None \<and>
          is_final_summary lib response \<longrightarrow>
            f = Return \<lparr> r_success = True, r_steps = Some (steps st),
                          r_summary = Some (JStr response), r_error = None \<rparr>) \<and>
         (parse_response lib response = Inr None \<and> print_assistant lib response = None \<and>
          \<not> is_final_summary lib response \<longrightarrow>
            idle_steps st' = idle_steps st + 1 \<and> steps st' = steps st \<and>
            (f = Continue \<or> f = Return (failed_with_summary response st'))) \<and>
         (\<forall>command_info. parse_response lib response = Inr (Some command_info) \<longrightarrow>
            (\<forall>res. f = Return res \<and> r_success res \<longrightarrow>
               dict_get command_info ''status'' JNull = JStr ''success''))"
proof (cases "parse_response lib response")
  case (Inl e)
  then show ?thesis by simp
next
  case (Inr parsed)
  show ?thesis
  proof (cases parsed)
    case None
    with Inr assms show ?thesis
      by (auto simp: iteration_def Let_def add_to_history_frame
          split: if_splits dest!: idle_step_frame)
  next
    case (Some ci)
    with Inr assms have "dispatch lib sys cfg ag n response ci
        ((add_to_history ''assistant'' response
            (st\<lparr>world := (world st)\<lparr>llm_calls := Suc (llm_calls (world st))\<rparr>\<rparr>))
           \<lparr>idle_steps := 0\<rparr>) = (f, st')"
      by (simp add: iteration_def Let_def)
    from dispatch_history[OF this] Some Inr show ?thesis by auto
  qed
qed

text \<open>
  Claim C7 at the reply \<open>All done. [/x]\<close>: nothing can be parsed from it and it contains
  the keyword \<open>done\<close>, so by the claim the run ends with \<open>success=True\<close> and the reply as
  summary. The code prints the reply before it looks for the keywords; the console
  takes \<open>[/x]\<close> for a closing tag, and \<open>MarkupError\<close> leaves \<open>run\<close> (the handler around
  the loop body prints the text of the exception, which names the tag, and raises
  again). Without such a tag the code does what the claim says: each of the six
  keywords, in any case, ends the run with success and the raw reply as summary; a
  reply with none of them makes the iteration idle; and a reply that parses is not
  upgraded, whatever words it contains.
\<close>

theorem markup_in_reply_prevents_keyword_upgrade:
  "parse_response reference_library ''All done. [/x]'' = Inr None \<and>
   is_final_summary reference_library ''All done. [/x]'' \<and>
   fst (run reference_library (replying_system ''All done. [/x]'') demo_config demo_agent
          (Some ''list files'') False demo_history demo_world) =
     Raised (MarkupError ''[/x]'' 41) \<and>
   list_all (\<lambda>reply.
       parse_response reference_library reply = Inr None \<and>
       fst (run reference_library (replying_system reply) demo_config demo_agent
              (Some ''list files'') False demo_history demo_world) =
         Returned \<lparr> r_success = True, r_steps = Some [], r_summary = Some (JStr reply),
                    r_error = None \<rparr>)
     keyword_replies \<and>
   parse_response reference_library ''All good'' = Inr None \<and>
   \<not> is_final_summary reference_library ''All good'' \<and>
   iteration reference_library (replying_system ''All good'') demo_config demo_agent 1
     start_state =
     (Continue,
      \<lparr> history = demo_history @ [\<lparr> role = ''assistant'', content = ''All good'' \<rparr>],
        steps = [], idle_steps = 1, world = demo_world\<lparr>llm_calls := 1\<rparr> \<rparr>) \<and>
   fst (run reference_library (replying_system ''All good'') demo_config demo_agent
          (Some ''list files'') False demo_history demo_world) =
     Returned \<lparr> r_success = False, r_steps = Some [], r_summary = Some (JStr ''All good''),
                r_error = None \<rparr> \<and>
   is_final_summary reference_library failed_reply \<and>
   fst (run reference_library (replying_system failed_reply) demo_config demo_agent
          (Some ''list files'') False demo_history demo_world) =
     Returned \<lparr> r_success = False, r_steps = Some [], r_summary = Some (JStr ''not done''),
                r_error = None \<rparr> \<and>
   is_final_summary reference_library (command_reply ''echo done'') \<and>
   fst (iteration reference_library (replying_system (command_reply ''echo done'')) demo_config
          demo_agent 1 start_state) = Continue \<and>
   map s_command (steps (snd (iteration reference_library
                                (replying_system (command_reply ''echo done'')) demo_config
                                demo_agent 1 start_state))) = [''echo done'']"
  by code_simp

section \<open>Failed calls of the language model\<close>

text \<open>
  What holds for every library. In an iteration whose call of the language model fails
  (it raises, which covers a timeout, or returns \<open>None\<close> or only whitespace) the history
  afterwards is exactly the history before and no step is added. When the texts of
  the failure are printed without an exception, \<open>idle_steps\<close> has grown by one, and the
  loop continues, or returns a failure because the idle budget is used up. When the
  reply is not empty, the history afterwards begins with the old history followed by
  the assistant message with that reply.
\<close>

lemma llm_failure_appends_nothing:
  assumes "iteration lib sys cfg ag n st = (f, st')"
  shows "(case llm_generate sys (llm_calls (world st)) (history st) of
            LLMRaise llm_error \<Rightarrow>
              history st' = history st \<and> steps st' = steps st \<and>
              (print_error lib (''LLM call failed ('' @ exn_type llm_error @ ''): '' @
                                exn_message llm_error) = None \<and>
               (VERBOSE cfg \<longrightarrow> print_traceback lib llm_error = None) \<longrightarrow>
                 idle_steps st' = idle_steps st + 1 \<and>
                 (f = Continue \<or> (\<exists>res. f = Return res \<and> \<not> r_success res \<and>
                                       max_idle_steps ag \<le> idle_steps st + 1)))
          | LLMNone \<Rightarrow>
              history st' = history st \<and> steps st' = steps st \<and>
              idle_steps st' = idle_steps st + 1 \<and>
              (f = Continue \<or> (\<exists>res. f = Return res \<and> \<not> r_success res \<and>
                                    max_idle_steps ag \<le> idle_steps st + 1))
          | LLMText response \<Rightarrow>
              if str_strip lib response = []
              then history st' = history st \<and> steps st' = steps st \<and>
                   (print_info lib (reply_repr_text @ str_repr lib response) = None \<longrightarrow>
                      idle_steps st' = idle_steps st + 1 \<and>
                      (f = Continue \<or> (\<exists>res. f = Return res \<and> \<not> r_success res \<and>
                                            max_idle_steps ag \<le> idle_steps st + 1)))
              else prefix (history st @ [\<lparr> role = ''assistant'', content = response \<rparr>])
                     (history st'))"
proof (cases "llm_generate sys (llm_calls (world st)) (history st)")
  case (LLMRaise e)
  with assms show ?thesis
    by (auto simp: iteration_def Let_def failed_with_error_def split: option.splits if_splits
        dest!: idle_step_frame handle_exception_frame)
next
  case LLMNone
  with assms show ?thesis
    by (auto simp: iteration_def Let_def failed_with_summary_def dest!: idle_step_frame)
next
  case (LLMText response)
  show ?thesis
  proof (cases "str_strip lib response = []")
    case True
    with assms LLMText show ?thesis
      by (auto simp: iteration_def Let_def failed_with_summary_def split: option.splits
          dest!: idle_step_frame handle_exception_frame)
  next
    case False
    with assms LLMText show ?thesis
      by (auto simp: iteration_def Let_def add_to_history_frame
          split: option.splits if_splits sum.splits
          dest!: idle_step_frame dispatch_history handle_exception_frame)
  qed
qed

text \<open>
  Claim C9 at a call that raises with the text \<open>upstream said [/x]\<close>: by the claim
  \<open>idle_steps\<close> is incremented and the loop continues. The code prints the text of the
  exception first; the console takes \<open>[/x]\<close> for a closing tag, \<open>MarkupError\<close> goes to
  the handler around the loop body, which prints its text, naming the tag, and the
  second \<open>MarkupError\<close> leaves \<open>run\<close>: after one call, with \<open>idle_steps\<close> still zero
  and the history as it was. Without such a tag the code does what the claim says:
  after a call that raises, a call that returns \<open>None\<close> and a reply of three blanks the
  history and the steps are as before, \<open>idle_steps\<close> is one and the loop continues;
  after the reply \<open>All good\<close> the assistant message is appended.
\<close>

theorem markup_in_llm_error_skips_idle_count:
  "run reference_library (failing_system ''upstream said [/x]'') demo_config demo_agent None
     True demo_history demo_world =
     (Raised (MarkupError ''[/x]'' 41), 1,
      \<lparr> history = demo_history, steps = [], idle_steps = 0,
        world = demo_world\<lparr>llm_calls := 1\<rparr> \<rparr>) \<and>
   iteration reference_library (failing_system ''connection reset'') demo_config demo_agent 1
     start_state =
     (Continue, \<lparr> history = demo_history, steps = [], idle_steps = 1,
                  world = demo_world\<lparr>llm_calls := 1\<rparr> \<rparr>) \<and>
   iteration reference_library silent_system demo_config demo_agent 1 start_state =
     (Continue, \<lparr> history = demo_history, steps = [], idle_steps = 1,
                  world = demo_world\<lparr>llm_calls := 1\<rparr> \<rparr>) \<and>
   iteration reference_library (replying_system ''   '') demo_config demo_agent 1
     start_state =
     (Continue, \<lparr> history = demo_history, steps = [], idle_steps = 1,
                  world = demo_world\<lparr>llm_calls := 1\<rparr> \<rparr>) \<and>
   history (snd (iteration reference_library (replying_system ''All good'') demo_config
                   demo_agent 1 start_state)) =
     demo_history @ [\<lparr> role = ''assistant'', content = ''All good'' \<rparr>]"
  by code_simp

section \<open>Confirmations\<close>

lemma execute_sudo_confirmed:
  assumes "execute lib sys cfg tt command timeout rc w = (res, w')"
    and "py_startswith (str_strip lib (str_lower lib command)) ''sudo ''"
    and "shell_log w' \<noteq> shell_log w"
  shows "confirm_answer sys (length (confirm_log w)) = AnswerYes \<and>
         prefix (confirm_log w @ [(SudoConfirm, False)]) (confirm_log w')"
  using assms(1)
proof (cases rule: execute_cases)
  case (shell w1 w2 w3)
  from shell(3) assms(2) have c: "ui_confirm sys SudoConfirm False w = (True, w1)" by simp
  then have a: "confirm_answer sys (length (confirm_log w)) = AnswerYes"
    "confirm_log w1 = confirm_log w @ [(SudoConfirm, False)]"
    by (auto simp: ui_confirm_def split: user_answer.splits)
  from maybe_confirm_frame[OF shell(4)] maybe_confirm_frame[OF shell(6)]
    run_shell_frame[OF shell(7)]
  have "prefix (confirm_log w1) (confirm_log w')" by (auto intro: prefix_order.trans)
  with a show ?thesis by simp
qed (use assms(3) in \<open>auto dest!: ui_confirm_frame maybe_confirm_frame\<close>)

lemma confirm_yes_not_declined:
  assumes "(if c then ui_confirm sys k d w else (True, w)) = (True, w1)"
    and "length (confirm_log w) < length (confirm_log w1)"
  shows "\<not> (case confirm_answer sys (length (confirm_log w1) - 1) of
              AnswerYes \<Rightarrow> False
            | AnswerNo \<Rightarrow> True
            | AnswerDefault \<Rightarrow> \<not> snd (last (confirm_log w1)))"
  using assms by (auto simp: ui_confirm_def split: if_splits user_answer.splits)

lemma maybe_confirm_log:
  "(if c then ui_confirm sys k d w else (True, w)) = (b, w1) \<Longrightarrow>
     confirm_log w1 = confirm_log w \<or> confirm_log w1 = confirm_log w @ [(k, d)]"
  by (auto simp: ui_confirm_def split: if_splits)

lemma three_confirms_not_declined:
  assumes 1: "(if c1 then ui_confirm sys k1 d1 w else (True, w)) = (True, w1)"
    and 2: "(if c2 then ui_confirm sys k2 d2 w1 else (True, w1)) = (True, w2)"
    and 3: "(if c3 then ui_confirm sys k3 d3 w2 else (True, w2)) = (True, w3)"
  shows "\<not> declined sys w w3"
proof (cases "length (confirm_log w2) < length (confirm_log w3)")
  case True
  from confirm_yes_not_declined[OF 3 True] show ?thesis by (simp add: declined_def)
next
  case n3: False
  with maybe_confirm_log[OF 3] have e3: "confirm_log w3 = confirm_log w2" by auto
  show ?thesis
  proof (cases "length (confirm_log w1) < length (confirm_log w2)")
    case True
    from confirm_yes_not_declined[OF 2 True] e3 show ?thesis
      by (auto simp: declined_def split: user_answer.splits)
  next
    case n2: False
    with maybe_confirm_log[OF 2] have e2: "confirm_log w2 = confirm_log w1" by auto
    show ?thesis
    proof (cases "length (confirm_log w) < length (confirm_log w1)")
      case True
      from confirm_yes_not_declined[OF 1 True] e2 e3 show ?thesis
        by (auto simp: declined_def split: user_answer.splits)
    next
      case False
      with maybe_confirm_log[OF 1] e2 e3 show ?thesis by (auto simp: declined_def)
    qed
  qed
qed

lemma execute_declined:
  assumes "execute lib sys cfg tt command timeout rc w = (res, w')"
    and "declined sys w w'"
  shows "(\<exists>err. res = Inr (False, [], err) \<and> prefix ''User cancelled'' err) \<and>
         shell_log w' = shell_log w"
  using assms(1)
proof (cases rule: execute_cases)
  case blocked
  with assms(2) show ?thesis by (simp add: declined_def)
next
  case invalid
  with assms(2) show ?thesis by (simp add: declined_def)
next
  case sudo_declined
  then show ?thesis by (auto dest!: ui_confirm_frame)
next
  case (risk_declined w1)
  then show ?thesis by (auto dest!: ui_confirm_frame maybe_confirm_frame)
next
  case (print_raised w1 e)
  have t: "(if False then ui_confirm sys NormalConfirm True w' else (True, w')) = (True, w')"
    by simp
  from three_confirms_not_declined[OF print_raised(3) print_raised(4) t] assms(2)
  show ?thesis by simp
next
  case (normal_declined w1 w2)
  then show ?thesis by (auto dest!: ui_confirm_frame)
next
  case (shell w1 w2 w3)
  from three_confirms_not_declined[OF shell(3) shell(4) shell(6)]
  have "\<not> declined sys w w3" .
  moreover from run_shell_frame[OF shell(7)] have "confirm_log w' = confirm_log w3" by simp
  ultimately show ?thesis using assms(2)
    by (auto simp: declined_def split: user_answer.splits)
qed

lemma command_branch_executed:
  assumes "fst (validate_command lib cfg (tool ag) command)"
    and "execute lib sys cfg (tool ag) command (Some 30) (require_confirm ag \<and> \<not> auto_mode ag)
           (world st) = (Inr (ok, out, err), w')"
  shows "fst (command_branch lib sys cfg ag n (JStr command) st) = Continue \<and>
     steps (snd (command_branch lib sys cfg ag n (JStr command) st)) =
       steps st @ [\<lparr> s_step = n, s_command = command, s_success = ok, s_stdout = out,
                      s_stderr = err \<rparr>]"
  using assms by (simp add: command_branch_valid add_to_history_frame)

text \<open>
  Claim C8, as stated, fails: \<open>execute\<close> tests \<open>command.lower().strip()\<close> for the prefix
  \<open>sudo \<close> (with the blank), so the command \<open>sudo \<close>, which begins with \<open>sudo \<close> and has
  only whitespace after it, is not taken for a sudo command. With \<open>require_confirm\<close> false
  it goes to the shell although the user would refuse every confirmation: none is asked.
\<close>

theorem bare_sudo_runs_unconfirmed_counterexample:
  "prefix ''sudo '' ''sudo '' \<and>
   shell_log (snd (execute reference_library refusing_system demo_config (tool demo_agent)
                     ''sudo '' (Some 30) False demo_world)) = [''sudo '', ''pwd''] \<and>
   confirm_log (snd (execute reference_library refusing_system demo_config (tool demo_agent)
                       ''sudo '' (Some 30) False demo_world)) = []"
  by code_simp

text \<open>
  Claim C8, amended. For every command whose text, in lower case and stripped
  (\<open>command.lower().strip()\<close>), begins with \<open>sudo \<close>: if \<open>execute\<close> hands anything to a
  shell, then the first confirmation of the call was the sudo confirmation, asked with
  default no, and the user answered it with an explicit yes, whatever \<open>require_confirm\<close>
  is. For every command: when the last confirmation asked in the call (sudo, high-risk
  or normal) is declined, \<open>execute\<close> returns \<open>success=False\<close>, no output, and an error
  text that begins with \<open>User cancelled\<close>, and nothing reaches a shell. The run does not
  end there: for a command that passes validation and a call of \<open>execute\<close> that returns,
  the command branch of \<open>run\<close> records the step and continues.
\<close>

theorem sudo_needs_explicit_yes:
  assumes "execute lib sys cfg (tool ag) command timeout rc w = (res, w')"
  shows "(py_startswith (str_strip lib (str_lower lib command)) ''sudo '' \<and>
          shell_log w' \<noteq> shell_log w \<longrightarrow>
            confirm_answer sys (length (confirm_log w)) = AnswerYes \<and>
            prefix (confirm_log w @ [(SudoConfirm, False)]) (confirm_log w')) \<and>
         (declined sys w w' \<longrightarrow>
            (\<exists>err. res = Inr (False, [], err) \<and> prefix ''User cancelled'' err) \<and>
            shell_log w' = shell_log w) \<and>
         (\<forall>ok out err.
            res = Inr (ok, out, err) \<and> fst (validate_command lib cfg (tool ag) command) \<and>
            w = world st \<and> timeout = Some 30 \<and> rc = (require_confirm ag \<and> \<not> auto_mode ag) \<longrightarrow>
              fst (command_branch lib sys cfg ag n (JStr command) st) = Continue \<and>
              steps (snd (command_branch lib sys cfg ag n (JStr command) st)) =
                steps st @ [\<lparr> s_step = n, s_command = command, s_success = ok,
                               s_stdout = out, s_stderr = err \<rparr>])"
  using execute_sudo_confirmed[OF assms] execute_declined[OF assms]
    command_branch_executed[of lib cfg ag command sys st _ _ _ w' n] assms
  by blast

theorem sudo_needs_explicit_yes_witness:
  "execute reference_library defaulting_system demo_config (tool demo_agent) ''sudo ls''
     (Some 30) False demo_world =
     (Inr (False, [], ''User cancelled sudo command''),
      demo_world\<lparr>confirm_log := [(SudoConfirm, False)]\<rparr>) \<and>
   py_startswith (str_strip reference_library (str_lower reference_library ''sudo ls''))
     ''sudo '' \<and>
   declined defaulting_system demo_world (demo_world\<lparr>confirm_log := [(SudoConfirm, False)]\<rparr>) \<and>
   shell_log (demo_world\<lparr>confirm_log := [(SudoConfirm, False)]\<rparr>) = shell_log demo_world \<and>
   shell_log (snd (execute reference_library insisting_system demo_config (tool demo_agent)
                     ''sudo ls'' (Some 30) False demo_world)) = [''sudo ls'', ''pwd''] \<and>
   confirm_answer insisting_system (length (confirm_log demo_world)) = AnswerYes \<and>
   prefix (confirm_log demo_world @ [(SudoConfirm, False)])
     (confirm_log (snd (execute reference_library insisting_system demo_config
                          (tool demo_agent) ''sudo ls'' (Some 30) False demo_world)))"
proof -
  have e: "execute reference_library defaulting_system demo_config (tool demo_agent) ''sudo ls''
     (Some 30) False demo_world =
     (Inr (False, [], ''User cancelled sudo command''),
      demo_world\<lparr>confirm_log := [(SudoConfirm, False)]\<rparr>)"
    by code_simp
  have s: "py_startswith (str_strip reference_library (str_lower reference_library ''sudo ls''))
     ''sudo ''" by code_simp
  have d: "declined defaulting_system demo_world
      (demo_world\<lparr>confirm_log := [(SudoConfirm, False)]\<rparr>)"
    by code_simp
  have y: "execute reference_library insisting_system demo_config (tool demo_agent) ''sudo ls''
     (Some 30) False demo_world =
     (fst (execute reference_library insisting_system demo_config (tool demo_agent) ''sudo ls''
             (Some 30) False demo_world),
      snd (execute reference_library insisting_system demo_config (tool demo_agent) ''sudo ls''
             (Some 30) False demo_world))" by simp
  have l: "shell_log (snd (execute reference_library insisting_system demo_config
                     (tool demo_agent) ''sudo ls'' (Some 30) False demo_world)) =
      [''sudo ls'', ''pwd'']" by code_simp
  have n: "shell_log (snd (execute reference_library insisting_system demo_config
                     (tool demo_agent) ''sudo ls'' (Some 30) False demo_world)) \<noteq>
      shell_log demo_world" unfolding l by (simp add: demo_world_def)
  from sudo_needs_explicit_yes [OF e] sudo_needs_explicit_yes [OF y] e s d l n
  show ?thesis by blast
qed

end
